theory Spec2Isabelle
  imports Main
begin

section \<open>JavaScript values, as far as \<open>ContentApi.ts\<close> uses them\<close>

text \<open>
  The raw payloads are whatever the fetch collaborator hands over: JSON-like JavaScript
  values. An object is an association list of its own properties, in insertion order.
  A number is an IEEE double; the model carries the integer-valued ones, as an \<open>int\<close>
  (the counts, sizes and limits of this interface; \<open>NaN\<close>, the infinities and fractions
  are not modelled). Payload numbers are only copied and tested for truthiness. The one
  arithmetic operation of the source, \<open>limit + 10\<close>, rounds as double addition does.
\<close>

datatype jsval =
    JUndefined
  | JNull
  | JBool bool
  | JNum int
  | JStr string
  | JArr "jsval list"
  | JObj "(string \<times> jsval) list"

text \<open>
  What a promise can be rejected with, and what a synchronous call can throw:
  \<open>new Error(`parameter filter is invalid`)\<close>, the \<open>TypeError\<close> of a property read on
  \<open>undefined\<close> or \<open>null\<close> (or of calling a method that is not there), and whatever
  the fetch collaborator rejects with.
\<close>

datatype error = InvalidFilter | TypeError | Upstream string

text \<open>\<open>p.then(f)\<close> on a settled promise, and sequencing of calls that may throw.\<close>

definition bindE :: "error + 'a \<Rightarrow> ('a \<Rightarrow> error + 'b) \<Rightarrow> error + 'b" where
  "bindE m f = (case m of Inl e \<Rightarrow> Inl e | Inr x \<Rightarrow> f x)"

text \<open>JavaScript's \<open>ToBoolean\<close>.\<close>

fun truthy :: "jsval \<Rightarrow> bool" where
  "truthy JUndefined = False"
| "truthy JNull = False"
| "truthy (JBool b) = b"
| "truthy (JNum n) = (n \<noteq> 0)"
| "truthy (JStr s) = (s \<noteq> [])"
| "truthy (JArr xs) = True"
| "truthy (JObj kvs) = True"

text \<open>
  The value of \<open>v.k\<close> where the read does not throw: the property of an object, and
  \<open>undefined\<close> for a missing key and for every key the source reads on a primitive or an
  array (it reads none of their built-in properties on a payload).
\<close>

fun pval :: "jsval \<Rightarrow> string \<Rightarrow> jsval" where
  "pval (JObj kvs) k = (case map_of kvs k of None \<Rightarrow> JUndefined | Some v \<Rightarrow> v)"
| "pval v k = JUndefined"

text \<open>The property read \<open>v.k\<close>: a \<open>TypeError\<close> on \<open>undefined\<close> and \<open>null\<close>.\<close>

fun getp :: "jsval \<Rightarrow> string \<Rightarrow> error + jsval" where
  "getp JUndefined k = Inl TypeError"
| "getp JNull k = Inl TypeError"
| "getp v k = Inr (pval v k)"

text \<open>The own keys of a value (\<open>Object.keys\<close>), and \<open>k in v\<close> for an object.\<close>

fun keys :: "jsval \<Rightarrow> string list" where
  "keys (JObj kvs) = map fst kvs"
| "keys v = []"

definition has_key :: "jsval \<Rightarrow> string \<Rightarrow> bool" where
  "has_key v k = (k \<in> set (keys v))"

text \<open>
  The assignment \<open>data[k] = v\<close> on an object under construction: an existing key keeps
  its place, a new one goes last.
\<close>

fun assign :: "string \<Rightarrow> jsval \<Rightarrow> (string \<times> jsval) list \<Rightarrow> (string \<times> jsval) list" where
  "assign k v [] = [(k, v)]"
| "assign k v (p # ps) = (if fst p = k then (k, v) # ps else p # assign k v ps)"

text \<open>
  Double arithmetic on integer values. A double has a 53-bit significand: below \<open>2^53\<close>
  every integer is a double, and from there on the doubles are the multiples of
  \<open>ulp\<close>, the power of two that leaves 53 significant bits. \<open>round_double\<close> takes an
  integer to the nearest double, a tie to the one with the even significand, and \<open>a + b\<close>
  is the exact sum rounded (no sum of this source leaves the range of the doubles).
\<close>

function bitlen :: "int \<Rightarrow> nat" where
  "bitlen n = (if n \<le> 0 then 0 else Suc (bitlen (n div 2)))"
  by pat_completeness auto
termination
  by (relation "measure nat") auto

declare bitlen.simps [simp del]

definition ulp :: "int \<Rightarrow> int" where
  "ulp a = (if a < 2 ^ 53 then 1 else 2 ^ (bitlen a - 53))"

definition round_double :: "int \<Rightarrow> int" where
  "round_double x =
     (let a = \<bar>x\<bar>; u = ulp a; q = a div u; r = a mod u;
          q' = (if 2 * r < u then q
                else if u < 2 * r then q + 1
                else if even q then q else q + 1)
      in sgn x * (q' * u))"

definition js_add :: "int \<Rightarrow> int \<Rightarrow> int" where
  "js_add a b = round_double (a + b)"

text \<open>\<open>a || b\<close> on values.\<close>

definition js_or :: "jsval \<Rightarrow> jsval \<Rightarrow> jsval" where
  "js_or a b = (if truthy a then a else b)"

section \<open>The normalization layer\<close>

text \<open>
  Each function follows its source line by line. A path that the source reads several
  times (\<open>entity.fields\<close> in every \<open>entity.fields.x\<close>) is read once and bound: a
  property read on these plain data objects has no effect, so every read of the same
  path gives the same value or the same \<open>TypeError\<close>.
\<close>

lemma bindE_cong [fundef_cong]:
  "m = m' \<Longrightarrow> (\<And>x. m' = Inr x \<Longrightarrow> f x = f' x) \<Longrightarrow> bindE m f = bindE m' f'"
  by (cases m') (simp_all add: bindE_def)

lemma size_map_of:
  "map_of kvs k = Some v \<Longrightarrow> size v < Suc (size_list (size_prod (\<lambda>_. 0) size) kvs)"
  by (induction kvs) (auto split: if_splits)

lemma size_getp: "getp v k = Inr w \<Longrightarrow> truthy w \<Longrightarrow> size w < size v"
  by (cases v) (auto split: option.splits dest: size_map_of)

text \<open>
  \<^verbatim>\<open>
  function toCategory(entity) {
      if (!entity) { return null; }
      const data = { id: entity.id }
      if (entity.fields) {
          data.name = entity.fields.name;
          data.slug = entity.fields.slug;
          if (entity.fields.parent) {
              data.parent = toCategory(entity.fields.parent);
          }
      }
      return data;
  }
  \<close>
\<close>

function toCategory :: "jsval \<Rightarrow> error + jsval" where
  "toCategory entity =
     (if \<not> truthy entity then Inr JNull
      else
        bindE (getp entity ''id'') (\<lambda>idv.
        let data = [(''id'', idv)] in
        bindE (getp entity ''fields'') (\<lambda>fields.
        if truthy fields then
          bindE (getp fields ''name'') (\<lambda>name.
          let data = assign ''name'' name data in
          bindE (getp fields ''slug'') (\<lambda>slug.
          let data = assign ''slug'' slug data in
          bindE (getp fields ''parent'') (\<lambda>parent.
          if truthy parent then
            bindE (toCategory parent) (\<lambda>p.
            Inr (JObj (assign ''parent'' p data)))
          else Inr (JObj data))))
        else Inr (JObj data))))"
  by pat_completeness auto
termination
proof (relation "measure size")
  fix entity idv fields name slug parent :: jsval
  assume "getp entity ''fields'' = Inr fields" "truthy fields"
    and "getp fields ''parent'' = Inr parent" "truthy parent"
  then have "size parent < size fields" "size fields < size entity"
    by (auto dest: size_getp)
  then show "(parent, entity) \<in> measure size" by simp
qed simp

declare toCategory.simps [simp del]

text \<open>
  \<^verbatim>\<open>
  function toImage(entity) {
      if (!entity) { return null; }
      const data = { id: entity.id }
      if (entity.fields) {
          if (entity.fields.file) {
              if (entity.fields.file.url) { data.url = entity.fields.file.url; }
              if (entity.fields.file.contentType) { data.contentType = entity.fields.file.contentType; }
              if (entity.fields.file.details) {
                  data.size = entity.fields.file.details.size;
                  if (entity.fields.file.details.image) {
                      data.width = entity.fields.file.details.image.width;
                      data.height = entity.fields.file.details.image.height;
                  }
              }
          }
      }
      return data;
  }
  \<close>
\<close>

definition toImage :: "jsval \<Rightarrow> error + jsval" where
  "toImage entity =
     (if \<not> truthy entity then Inr JNull
      else
        bindE (getp entity ''id'') (\<lambda>idv.
        let data = [(''id'', idv)] in
        bindE (getp entity ''fields'') (\<lambda>fields.
        if truthy fields then
          bindE (getp fields ''file'') (\<lambda>file.
          if truthy file then
            bindE (getp file ''url'') (\<lambda>url.
            let data = (if truthy url then assign ''url'' url data else data) in
            bindE (getp file ''contentType'') (\<lambda>contentType.
            let data = (if truthy contentType
                        then assign ''contentType'' contentType data else data) in
            bindE (getp file ''details'') (\<lambda>details.
            if truthy details then
              bindE (getp details ''size'') (\<lambda>sz.
              let data = assign ''size'' sz data in
              bindE (getp details ''image'') (\<lambda>image.
              if truthy image then
                bindE (getp image ''width'') (\<lambda>width.
                let data = assign ''width'' width data in
                bindE (getp image ''height'') (\<lambda>height.
                Inr (JObj (assign ''height'' height data))))
              else Inr (JObj data)))
            else Inr (JObj data))))
          else Inr (JObj data))
        else Inr (JObj data))))"

text \<open>
  \<^verbatim>\<open>
  function toArticle(entity) {
      if (!entity) { return null; }
      const data = {
          id: entity.id, createdAt: entity.createdAt, updatedAt: entity.updatedAt,
          title: entity.fields.title, slug: entity.fields.slug,
          summary: entity.fields.summary, countViews: entity.fields.countViews || 1,
      }
      if (entity.fields.text) { data.text = entity.fields.text; }
      if (entity.fields.category) { data.category = toCategory(entity.fields.category); }
      if (entity.fields.image) { data.image = toImage(entity.fields.image); }
      return data;
  }
  \<close>
  \<open>entity.fields\<close> is not guarded here: every \<open>entity.fields.x\<close> throws when it is
  \<open>undefined\<close> or \<open>null\<close>.
\<close>

definition toArticle :: "jsval \<Rightarrow> error + jsval" where
  "toArticle entity =
     (if \<not> truthy entity then Inr JNull
      else
        bindE (getp entity ''id'') (\<lambda>idv.
        bindE (getp entity ''createdAt'') (\<lambda>createdAt.
        bindE (getp entity ''updatedAt'') (\<lambda>updatedAt.
        bindE (getp entity ''fields'') (\<lambda>fields.
        bindE (getp fields ''title'') (\<lambda>title.
        bindE (getp fields ''slug'') (\<lambda>slug.
        bindE (getp fields ''summary'') (\<lambda>summary.
        bindE (getp fields ''countViews'') (\<lambda>countViews.
        let data = [(''id'', idv), (''createdAt'', createdAt), (''updatedAt'', updatedAt),
                    (''title'', title), (''slug'', slug), (''summary'', summary),
                    (''countViews'', js_or countViews (JNum 1))] in
        bindE (getp fields ''text'') (\<lambda>text.
        let data = (if truthy text then assign ''text'' text data else data) in
        bindE (getp fields ''category'') (\<lambda>category.
        bindE (if truthy category
               then bindE (toCategory category) (\<lambda>c. Inr (assign ''category'' c data))
               else Inr data) (\<lambda>data.
        bindE (getp fields ''image'') (\<lambda>image.
        bindE (if truthy image
               then bindE (toImage image) (\<lambda>i. Inr (assign ''image'' i data))
               else Inr data) (\<lambda>data.
        Inr (JObj data)))))))))))))))"

text \<open>\<open>EntityCollection<T>\<close>: both keys are always there.\<close>

record EntityCollection =
  total :: jsval
  items :: "jsval list"

text \<open>\<open>xs.map(f)\<close> with a callback that may throw: the first throw ends the call.\<close>

fun mapE :: "('a \<Rightarrow> error + 'b) \<Rightarrow> 'a list \<Rightarrow> error + 'b list" where
  "mapE f [] = Inr []"
| "mapE f (x # xs) = bindE (f x) (\<lambda>y. bindE (mapE f xs) (\<lambda>ys. Inr (y # ys)))"

text \<open>
  \<open>v.map(f)\<close> on a value: only an array has the method; on any other value that passed
  the truthiness guard the call is a \<open>TypeError\<close>.
\<close>

fun js_map :: "(jsval \<Rightarrow> error + jsval) \<Rightarrow> jsval \<Rightarrow> error + jsval list" where
  "js_map f (JArr xs) = mapE f xs"
| "js_map f v = Inl TypeError"

text \<open>
  \<^verbatim>\<open>
  function toArticles(collection) {
      const data = { total: 0, items: [] };
      if (!collection) { return data; }
      if (!collection.items) {
          data.total = collection.total || data.total;
          return data;
      }
      data.items = collection.items.map(toArticle);
      return data;
  }
  \<close>
  and the same for \<open>toCategories\<close> with \<open>toCategory\<close>.
\<close>

definition toArticles :: "jsval \<Rightarrow> error + EntityCollection" where
  "toArticles collection =
     (let data = \<lparr>total = JNum 0, items = []\<rparr> in
      if \<not> truthy collection then Inr data
      else
        bindE (getp collection ''items'') (\<lambda>its.
        if \<not> truthy its then
          bindE (getp collection ''total'') (\<lambda>t.
          Inr (data\<lparr>total := js_or t (total data)\<rparr>))
        else
          bindE (js_map toArticle its) (\<lambda>ys.
          Inr (data\<lparr>items := ys\<rparr>))))"

definition toCategories :: "jsval \<Rightarrow> error + EntityCollection" where
  "toCategories collection =
     (let data = \<lparr>total = JNum 0, items = []\<rparr> in
      if \<not> truthy collection then Inr data
      else
        bindE (getp collection ''items'') (\<lambda>its.
        if \<not> truthy its then
          bindE (getp collection ''total'') (\<lambda>t.
          Inr (data\<lparr>total := js_or t (total data)\<rparr>))
        else
          bindE (js_map toCategory its) (\<lambda>ys.
          Inr (data\<lparr>items := ys\<rparr>))))"

section \<open>The query builder and the cached fetch facade\<close>

datatype ContentTypes = CATEGORY | FILE | ARTICLE

fun content_type_name :: "ContentTypes \<Rightarrow> string" where
  "content_type_name CATEGORY = ''category''"
| "content_type_name FILE = ''file''"
| "content_type_name ARTICLE = ''article''"

text \<open>
  \<open>ApiQuery\<close>: the object a method builds, key by key. The fetch collaborator
  \<open>getCacheEntries(contentType, query)\<close> of the base class is a parameter of every
  method: it resolves to a raw collection (\<open>Inr\<close>) or rejects (\<open>Inl\<close>, with its own
  message). A promise is modelled by its settlement, a rejection by \<open>Inl\<close>.
\<close>

type_synonym query = "(string \<times> jsval) list"

type_synonym fetcher = "string \<Rightarrow> query \<Rightarrow> string + jsval"

definition getCacheEntries :: "fetcher \<Rightarrow> ContentTypes \<Rightarrow> query \<Rightarrow> error + jsval" where
  "getCacheEntries fetch ct q =
     (case fetch (content_type_name ct) q of Inl m \<Rightarrow> Inl (Upstream m) | Inr c \<Rightarrow> Inr c)"

text \<open>
  \<^verbatim>\<open>
  getArticles(query) {
      query.content_type = ContentTypes.ARTICLE;
      return this.getCacheEntries(ContentTypes.ARTICLE, query).then(toArticles);
  }
  \<close>
\<close>

definition getArticles :: "fetcher \<Rightarrow> query \<Rightarrow> error + EntityCollection" where
  "getArticles fetch q =
     (let q = assign ''content_type'' (JStr (content_type_name ARTICLE)) q in
      bindE (getCacheEntries fetch ARTICLE q) toArticles)"

definition getCategories :: "fetcher \<Rightarrow> query \<Rightarrow> error + EntityCollection" where
  "getCategories fetch q =
     (let q = assign ''content_type'' (JStr (content_type_name CATEGORY)) q in
      bindE (getCacheEntries fetch CATEGORY q) toCategories)"

definition getCategoriesList :: "fetcher \<Rightarrow> query \<Rightarrow> error + jsval list" where
  "getCategoriesList fetch q = bindE (getCategories fetch q) (\<lambda>result. Inr (items result))"

text \<open>\<open>a && b\<close> on values, and \<open>xs[0]\<close> (\<open>undefined\<close> on an empty array).\<close>

definition js_and :: "jsval \<Rightarrow> jsval \<Rightarrow> jsval" where
  "js_and a b = (if truthy a then b else a)"

fun first_item :: "jsval list \<Rightarrow> jsval" where
  "first_item [] = JUndefined"
| "first_item (x # xs) = x"

text \<open>The callback \<open>articles => articles.items.length && articles.items[0] || null\<close>.\<close>

definition first_or_null :: "EntityCollection \<Rightarrow> jsval" where
  "first_or_null articles =
     js_or (js_and (JNum (int (length (items articles)))) (first_item (items articles))) JNull"

text \<open>
  The query of a single-item lookup, as \<open>article\<close> and \<open>category\<close> both build it:
  \<^verbatim>\<open>
  const query = { include: 1, limit: 1 };
  if (filter.slug) { query['fields.slug'] = filter.slug; }
  else { query['sys.id'] = filter.id; }
  \<close>
\<close>

definition item_query :: "jsval \<Rightarrow> error + query" where
  "item_query flt =
     (let q = [(''include'', JNum 1), (''limit'', JNum 1)] in
      bindE (getp flt ''slug'') (\<lambda>slug.
      if truthy slug then Inr (assign ''fields.slug'' slug q)
      else bindE (getp flt ''id'') (\<lambda>idv. Inr (assign ''sys.id'' idv q))))"

text \<open>The guard \<open>!filter || !filter.id && !filter.slug\<close>; the reads happen only on a truthy filter.\<close>

definition invalid_item_filter :: "jsval \<Rightarrow> error + bool" where
  "invalid_item_filter flt =
     (if \<not> truthy flt then Inr True
      else
        bindE (getp flt ''id'') (\<lambda>idv.
        if truthy idv then Inr False
        else bindE (getp flt ''slug'') (\<lambda>slug. Inr (\<not> truthy slug))))"

text \<open>
  \<^verbatim>\<open>
  article(filter) {
      if (!filter || !filter.id && !filter.slug) {
          return Promise.reject(new Error(`parameter filter is invalid`));
      }
      const query = ...;
      return this.getArticles(query)
          .then(articles => articles.items.length && articles.items[0] || null);
  }
  \<close>
  and the same for \<open>category\<close> with \<open>getCategories\<close>.
\<close>

definition article :: "fetcher \<Rightarrow> jsval \<Rightarrow> error + jsval" where
  "article fetch flt =
     bindE (invalid_item_filter flt) (\<lambda>bad.
     if bad then Inl InvalidFilter
     else
       bindE (item_query flt) (\<lambda>q.
       bindE (getArticles fetch q) (\<lambda>articles.
       Inr (first_or_null articles))))"

definition category :: "fetcher \<Rightarrow> jsval \<Rightarrow> error + jsval" where
  "category fetch flt =
     bindE (invalid_item_filter flt) (\<lambda>bad.
     if bad then Inl InvalidFilter
     else
       bindE (item_query flt) (\<lambda>q.
       bindE (getCategories fetch q) (\<lambda>collection.
       Inr (first_or_null collection))))"

text \<open>
  The query of a listing:
  \<^verbatim>\<open>
  const query = { limit: filter.limit };
  query.select = 'sys.id,sys.createdAt,sys.updatedAt,fields.title,fields.slug,fields.summary,fields.image,fields.category';
  switch (filter.order) {
      case 'createdAt': query.order = 'sys.createdAt'; break;
      case 'countViews': query.order = 'fields.countViews'; break;
      case '-countViews': query.order = '-fields.countViews'; break;
      default: query.order = '-sys.createdAt'; break;
  }
  if (filter.categoryId) { query['fields.category.sys.id'] = filter.categoryId; }
  if (filter.categorySlug) { query['fields.category.fields.slug'] = filter.categorySlug; }
  \<close>
\<close>

definition list_select :: string where
  "list_select = ''sys.id,sys.createdAt,sys.updatedAt,fields.title,fields.slug,fields.summary,fields.image,fields.category''"

definition order_key :: "jsval \<Rightarrow> string" where
  "order_key ord =
     (if ord = JStr ''createdAt'' then ''sys.createdAt''
      else if ord = JStr ''countViews'' then ''fields.countViews''
      else if ord = JStr ''-countViews'' then ''-fields.countViews''
      else ''-sys.createdAt'')"

definition articles_query :: "jsval \<Rightarrow> error + query" where
  "articles_query flt =
     bindE (getp flt ''limit'') (\<lambda>limit.
     let q = [(''limit'', limit)] in
     let q = assign ''select'' (JStr list_select) q in
     bindE (getp flt ''order'') (\<lambda>ord.
     let q = assign ''order'' (JStr (order_key ord)) q in
     bindE (getp flt ''categoryId'') (\<lambda>categoryId.
     let q = (if truthy categoryId then assign ''fields.category.sys.id'' categoryId q else q) in
     bindE (getp flt ''categorySlug'') (\<lambda>categorySlug.
     let q = (if truthy categorySlug
              then assign ''fields.category.fields.slug'' categorySlug q else q) in
     Inr q))))"

text \<open>
  \<^verbatim>\<open>
  articles(filter) {
      if (!filter) { return Promise.reject(new Error(`parameter filter is invalid`)); }
      const query = ...;
      return this.getArticles(query);
  }
  \<close>
\<close>

definition articles :: "fetcher \<Rightarrow> jsval \<Rightarrow> error + EntityCollection" where
  "articles fetch flt =
     (if \<not> truthy flt then Inl InvalidFilter
      else bindE (articles_query flt) (getArticles fetch))"

text \<open>
  \<^verbatim>\<open>
  articlesList(filter) { return this.articles(filter).then(result => result.items); }
  getArticlesList(query) { return this.getArticles(query).then(result => result.items); }
  rootCategories() {
      return this.getCategoriesList({ order: 'fields.slug', 'fields.parent': null, limit: 10 });
  }
  allCategories() { return this.getCategories({ order: 'fields.slug', limit: 100 }); }
  \<close>
\<close>

definition articlesList :: "fetcher \<Rightarrow> jsval \<Rightarrow> error + jsval list" where
  "articlesList fetch flt = bindE (articles fetch flt) (\<lambda>result. Inr (items result))"

definition getArticlesList :: "fetcher \<Rightarrow> query \<Rightarrow> error + jsval list" where
  "getArticlesList fetch q = bindE (getArticles fetch q) (\<lambda>result. Inr (items result))"

definition rootCategories :: "fetcher \<Rightarrow> error + jsval list" where
  "rootCategories fetch =
     getCategoriesList fetch
       [(''order'', JStr ''fields.slug''), (''fields.parent'', JNull), (''limit'', JNum 10)]"

definition allCategories :: "fetcher \<Rightarrow> error + EntityCollection" where
  "allCategories fetch =
     getCategories fetch [(''order'', JStr ''fields.slug''), (''limit'', JNum 100)]"

text \<open>\<open>xs.filter(p)\<close> with a callback that may throw.\<close>

fun filterE :: "('a \<Rightarrow> error + bool) \<Rightarrow> 'a list \<Rightarrow> error + 'a list" where
  "filterE p [] = Inr []"
| "filterE p (x # xs) =
     bindE (p x) (\<lambda>b. bindE (filterE p xs) (\<lambda>ys. Inr (if b then x # ys else ys)))"

text \<open>\<open>xs.slice(0, n)\<close>: a negative end counts from the end of the array.\<close>

definition slice0 :: "'a list \<Rightarrow> int \<Rightarrow> 'a list" where
  "slice0 xs n = (if n < 0 then take (nat (int (length xs) + n)) xs else take (nat n) xs)"

text \<open>The callback \<open>item => item.parent && item.parent.name\<close>, read as a boolean by \<open>filter\<close>.\<close>

definition has_named_parent :: "jsval \<Rightarrow> error + bool" where
  "has_named_parent item =
     bindE (getp item ''parent'') (\<lambda>parent.
     if truthy parent then bindE (getp parent ''name'') (\<lambda>name. Inr (truthy name))
     else Inr False)"

text \<open>
  \<^verbatim>\<open>
  mainCategories(limit) {
      return this.getCategoriesList({ order: 'fields.slug', limit: limit + 10 })
          .then(list => list.filter(item => item.parent && item.parent.name).slice(0, limit));
  }
  \<close>
\<close>

definition mainCategories :: "fetcher \<Rightarrow> int \<Rightarrow> error + jsval list" where
  "mainCategories fetch limit =
     bindE (getCategoriesList fetch
              [(''order'', JStr ''fields.slug''), (''limit'', JNum (js_add limit 10))])
       (\<lambda>list. bindE (filterE has_named_parent list) (\<lambda>kept. Inr (slice0 kept limit)))"

text \<open>
  The \<open>select\<close> parameter is a comma-separated list of field paths; this is the
  list read back from its parts.
\<close>

fun join_commas :: "string list \<Rightarrow> string" where
  "join_commas [] = []"
| "join_commas [x] = x"
| "join_commas (x # y # zs) = x @ '','' @ join_commas (y # zs)"

section \<open>The shape of a normalized category\<close>

text \<open>
  \<open>interface CategoryEntity extends Entity { name?: string; slug?: string; parent?: CategoryEntity }\<close>
  with \<open>id\<close> required by \<open>Entity\<close>: an object that has an \<open>id\<close> key, carries only the
  category attributes, and whose \<open>parent\<close>, when the key is there, is a category again.
\<close>

function is_category :: "jsval \<Rightarrow> bool" where
  "is_category v =
     (case v of
        JObj kvs \<Rightarrow>
          ''id'' \<in> set (map fst kvs) \<and>
          set (map fst kvs) \<subseteq> {''id'', ''name'', ''slug'', ''parent''} \<and>
          (case map_of kvs ''parent'' of None \<Rightarrow> True | Some p \<Rightarrow> is_category p)
      | _ \<Rightarrow> False)"
  by pat_completeness auto
termination
  by (relation "measure size") (auto dest: size_map_of)

declare is_category.simps [simp del]

text \<open>
  The \<open>n\<close>-th ancestor of a raw category (\<open>entity.fields.parent\<close>, \<open>n\<close> times) and of a
  normalized one (\<open>data.parent\<close>, \<open>n\<close> times).
\<close>

fun raw_ancestor :: "nat \<Rightarrow> jsval \<Rightarrow> jsval" where
  "raw_ancestor 0 entity = entity"
| "raw_ancestor (Suc n) entity = raw_ancestor n (pval (pval entity ''fields'') ''parent'')"

fun ancestor :: "nat \<Rightarrow> jsval \<Rightarrow> jsval" where
  "ancestor 0 data = data"
| "ancestor (Suc n) data = ancestor n (pval data ''parent'')"

section \<open>Example payloads\<close>

text \<open>The raw image \<open>{fields: {file: {url: 'u', details: {image: {width: 10, height: 20}}}}}\<close>.\<close>

abbreviation image_example :: jsval where
  "image_example \<equiv>
     JObj [(''fields'', JObj [(''file'', JObj [(''url'', JStr ''u''), (''details'',
       JObj [(''image'', JObj [(''width'', JNum 10), (''height'', JNum 20)])])])])]"

text \<open>A raw category whose parent has a parent, three levels in one payload.\<close>

abbreviation raw_grandparent :: jsval where
  "raw_grandparent \<equiv>
     JObj [(''id'', JStr ''g''), (''createdAt'', JStr ''2020''),
           (''fields'', JObj [(''name'', JStr ''G''), (''slug'', JStr ''g'')])]"

abbreviation raw_parent :: jsval where
  "raw_parent \<equiv>
     JObj [(''id'', JStr ''p''), (''fields'', JObj [(''name'', JStr ''P''), (''parent'', raw_grandparent)])]"

abbreviation raw_child :: jsval where
  "raw_child \<equiv>
     JObj [(''id'', JStr ''c''), (''fields'', JObj [(''name'', JStr ''C''), (''parent'', raw_parent)])]"

text \<open>
  Two collaborators to run the facade against: one resolves every query to the same raw
  collection, the other resolves only the query it expects and rejects every other one.
\<close>

definition resolve_with :: "jsval \<Rightarrow> fetcher" where
  "resolve_with c ct q = Inr c"

definition expect_query :: "string \<Rightarrow> query \<Rightarrow> jsval \<Rightarrow> fetcher" where
  "expect_query ct0 q0 c ct q = (if ct = ct0 \<and> q = q0 then Inr c else Inl ''another query'')"

section \<open>Basic facts about the model\<close>

lemma bindE_Inl [simp]: "bindE (Inl e) f = Inl e" by (simp add: bindE_def)
lemma bindE_Inr [simp]: "bindE (Inr x) f = f x" by (simp add: bindE_def)

lemma getp_nonnull: "v \<noteq> JUndefined \<Longrightarrow> v \<noteq> JNull \<Longrightarrow> getp v k = Inr (pval v k)"
  by (cases v) simp_all

lemma getp_truthy [simp]: "truthy v \<Longrightarrow> getp v k = Inr (pval v k)"
  by (cases v) simp_all

lemma truthy_pval: "truthy (pval v k) \<Longrightarrow> truthy v"
  by (cases v) simp_all

lemma pval_falsy [simp]: "\<not> truthy v \<Longrightarrow> pval v k = JUndefined"
  by (cases v) simp_all

lemma map_of_assign: "map_of (assign k v kvs) = (map_of kvs)(k \<mapsto> v)"
  by (induction kvs) (auto simp: fun_eq_iff)

lemma keys_assign: "set (map fst (assign k v kvs)) = insert k (set (map fst kvs))"
  by (induction kvs) auto

lemma pval_assign [simp]:
  "pval (JObj (assign k v kvs)) k' = (if k' = k then v else pval (JObj kvs) k')"
  by (simp add: map_of_assign)

lemma has_key_assign [simp]:
  "has_key (JObj (assign k v kvs)) k' = (k' = k \<or> has_key (JObj kvs) k')"
  using keys_assign [of k v kvs] by (simp add: has_key_def)

lemma toCategory_falsy: "\<not> truthy e \<Longrightarrow> toCategory e = Inr JNull"
  by (subst toCategory.simps) simp

lemma toCategory_truthy:
  "truthy e \<Longrightarrow> toCategory e =
     (if truthy (pval e ''fields'') then
        (if truthy (pval (pval e ''fields'') ''parent'') then
           bindE (toCategory (pval (pval e ''fields'') ''parent'')) (\<lambda>p.
             Inr (JObj [(''id'', pval e ''id''), (''name'', pval (pval e ''fields'') ''name''),
                        (''slug'', pval (pval e ''fields'') ''slug''), (''parent'', p)]))
         else Inr (JObj [(''id'', pval e ''id''), (''name'', pval (pval e ''fields'') ''name''),
                         (''slug'', pval (pval e ''fields'') ''slug'')]))
      else Inr (JObj [(''id'', pval e ''id'')]))"
  by (subst toCategory.simps) (simp add: Let_def)

lemma toCategory_total: "\<exists>c. toCategory e = Inr c"
proof (induction e rule: toCategory.induct)
  case (1 entity)
  show ?case
  proof (cases "truthy entity")
    case False
    then show ?thesis by (simp add: toCategory_falsy)
  next
    case True
    note te = this
    note unf = toCategory_truthy [OF te]
    show ?thesis
    proof (cases "truthy (pval entity ''fields'') \<and> truthy (pval (pval entity ''fields'') ''parent'')")
      case False
      then show ?thesis unfolding unf by auto
    next
      case True
      then have tf: "truthy (pval entity ''fields'')"
        and tp: "truthy (pval (pval entity ''fields'') ''parent'')" by simp_all
      have "\<exists>c. toCategory (pval (pval entity ''fields'') ''parent'') = Inr c"
        by (rule "1.IH" [OF _ getp_truthy [OF te] refl getp_truthy [OF te] tf
              getp_truthy [OF tf] refl getp_truthy [OF tf] refl getp_truthy [OF tf] tp])
           (simp add: te)
      then obtain c where "toCategory (pval (pval entity ''fields'') ''parent'') = Inr c" ..
      with True show ?thesis unfolding unf by simp
    qed
  qed
qed

lemma mapE_Inr_iff: "(mapE f xs = Inr ys) = list_all2 (\<lambda>x y. f x = Inr y) xs ys"
proof (induction xs arbitrary: ys)
  case Nil
  show ?case by auto
next
  case (Cons x xs)
  show ?case
  proof (cases "f x")
    case (Inl e)
    then show ?thesis by (auto simp: list_all2_Cons1)
  next
    case (Inr y)
    note fx = this
    show ?thesis
    proof (cases "mapE f xs")
      case (Inl e)
      with Cons [of "tl ys"] fx show ?thesis by (auto simp: list_all2_Cons1)
    next
      case (Inr zs)
      with Cons fx show ?thesis by (auto simp: list_all2_Cons1)
    qed
  qed
qed

lemma mapE_total: "(\<And>x. \<exists>y. f x = Inr y) \<Longrightarrow> \<exists>ys. mapE f xs = Inr ys"
proof (induction xs)
  case Nil
  show ?case by simp
next
  case (Cons x xs)
  then obtain ys where "mapE f xs = Inr ys" by blast
  moreover from Cons.prems obtain y where "f x = Inr y" by blast
  ultimately show ?case by simp
qed

lemma toArticles_falsy: "\<not> truthy c \<Longrightarrow> toArticles c = Inr \<lparr>total = JNum 0, items = []\<rparr>"
  by (simp add: toArticles_def)

lemma toCategories_falsy: "\<not> truthy c \<Longrightarrow> toCategories c = Inr \<lparr>total = JNum 0, items = []\<rparr>"
  by (simp add: toCategories_def)

lemma toArticles_no_items:
  "truthy c \<Longrightarrow> \<not> truthy (pval c ''items'') \<Longrightarrow>
   toArticles c = Inr \<lparr>total = js_or (pval c ''total'') (JNum 0), items = []\<rparr>"
  by (simp add: toArticles_def)

lemma toCategories_no_items:
  "truthy c \<Longrightarrow> \<not> truthy (pval c ''items'') \<Longrightarrow>
   toCategories c = Inr \<lparr>total = js_or (pval c ''total'') (JNum 0), items = []\<rparr>"
  by (simp add: toCategories_def)

lemma toArticles_items:
  "truthy c \<Longrightarrow> pval c ''items'' = JArr xs \<Longrightarrow>
   toArticles c = bindE (mapE toArticle xs) (\<lambda>ys. Inr \<lparr>total = JNum 0, items = ys\<rparr>)"
  by (simp add: toArticles_def)

lemma toCategories_items:
  "truthy c \<Longrightarrow> pval c ''items'' = JArr xs \<Longrightarrow>
   toCategories c = bindE (mapE toCategory xs) (\<lambda>ys. Inr \<lparr>total = JNum 0, items = ys\<rparr>)"
  by (simp add: toCategories_def)

lemma bindE_Inr_iff: "(bindE m f = Inr z) = (\<exists>x. m = Inr x \<and> f x = Inr z)"
  by (cases m) simp_all

lemma toImage_total: "\<exists>i. toImage e = Inr i"
  by (simp add: toImage_def Let_def)

lemma pval_defined_truthy: "pval v k \<noteq> JUndefined \<Longrightarrow> truthy v"
  by (cases v) simp_all

lemma toCategory_fields:
  "\<exists>c. toCategory e = Inr c \<and>
     pval c ''id'' = pval e ''id'' \<and>
     pval c ''name'' = pval (pval e ''fields'') ''name'' \<and>
     pval c ''slug'' = pval (pval e ''fields'') ''slug'' \<and>
     has_key c ''parent'' = truthy (pval (pval e ''fields'') ''parent'')"
proof (cases "truthy e")
  case False
  then show ?thesis by (simp add: toCategory_falsy has_key_def)
next
  case True
  obtain p where "toCategory (pval (pval e ''fields'') ''parent'') = Inr p"
    using toCategory_total by blast
  then show ?thesis
    unfolding toCategory_truthy [OF True]
    by (auto simp: has_key_def dest: truthy_pval)
qed

lemma is_category_leaf:
  "is_category (JObj [(''id'', i)])"
  "is_category (JObj [(''id'', i), (''name'', n), (''slug'', s)])"
  by (subst is_category.simps, simp)+

lemma is_category_node:
  "is_category p \<Longrightarrow> is_category (JObj [(''id'', i), (''name'', n), (''slug'', s), (''parent'', p)])"
  by (subst is_category.simps) simp

lemma toCategory_is_category: "truthy e \<Longrightarrow> toCategory e = Inr c \<Longrightarrow> is_category c"
proof (induction e arbitrary: c rule: toCategory.induct)
  case (1 entity)
  note te = \<open>truthy entity\<close>
  note unf = toCategory_truthy [OF te]
  show ?case
  proof (cases "truthy (pval entity ''fields'') \<and> truthy (pval (pval entity ''fields'') ''parent'')")
    case False
    with "1.prems"(2) show ?thesis unfolding unf
      by (auto simp: is_category_leaf split: if_splits)
  next
    case True
    then have tf: "truthy (pval entity ''fields'')"
      and tp: "truthy (pval (pval entity ''fields'') ''parent'')" by simp_all
    obtain p where p: "toCategory (pval (pval entity ''fields'') ''parent'') = Inr p"
      using toCategory_total by blast
    have "is_category p"
      by (rule "1.IH" [OF _ getp_truthy [OF te] refl getp_truthy [OF te] tf
              getp_truthy [OF tf] refl getp_truthy [OF tf] refl getp_truthy [OF tf] tp tp p])
         (simp add: te)
    with "1.prems"(2) p tf tp show ?thesis unfolding unf
      by (auto simp: is_category_node)
  qed
qed

lemma toCategory_parent:
  "truthy e \<Longrightarrow> truthy (pval (pval e ''fields'') ''parent'') \<Longrightarrow> toCategory e = Inr c \<Longrightarrow>
   toCategory (pval (pval e ''fields'') ''parent'') = Inr (pval c ''parent'')"
proof -
  assume te: "truthy e" and tp: "truthy (pval (pval e ''fields'') ''parent'')"
    and c: "toCategory e = Inr c"
  from tp have tf: "truthy (pval e ''fields'')" by (rule truthy_pval)
  obtain p where p: "toCategory (pval (pval e ''fields'') ''parent'') = Inr p"
    using toCategory_total by blast
  with c tf tp show ?thesis
    unfolding toCategory_truthy [OF te] by auto
qed

lemma toArticle_fields:
  assumes "pval e ''fields'' \<noteq> JUndefined" and "pval e ''fields'' \<noteq> JNull"
  shows "\<exists>a. toArticle e = Inr a \<and>
     pval a ''id'' = pval e ''id'' \<and>
     pval a ''createdAt'' = pval e ''createdAt'' \<and>
     pval a ''updatedAt'' = pval e ''updatedAt'' \<and>
     pval a ''title'' = pval (pval e ''fields'') ''title'' \<and>
     pval a ''slug'' = pval (pval e ''fields'') ''slug'' \<and>
     pval a ''summary'' = pval (pval e ''fields'') ''summary'' \<and>
     pval a ''countViews'' = js_or (pval (pval e ''fields'') ''countViews'') (JNum 1) \<and>
     has_key a ''text'' = truthy (pval (pval e ''fields'') ''text'') \<and>
     has_key a ''category'' = truthy (pval (pval e ''fields'') ''category'') \<and>
     has_key a ''image'' = truthy (pval (pval e ''fields'') ''image'')"
proof -
  from assms(1) have te: "truthy e" by (rule pval_defined_truthy)
  obtain c where c: "toCategory (pval (pval e ''fields'') ''category'') = Inr c"
    using toCategory_total by blast
  obtain i where i: "toImage (pval (pval e ''fields'') ''image'') = Inr i"
    using toImage_total by blast
  show ?thesis
    using te c i
    by (simp add: toArticle_def getp_nonnull [OF assms] Let_def has_key_def)
qed

lemma toArticle_no_fields:
  "truthy e \<Longrightarrow> pval e ''fields'' = JUndefined \<or> pval e ''fields'' = JNull \<Longrightarrow>
   toArticle e = Inl TypeError"
  by (auto simp: toArticle_def)

lemma toImage_falsy: "\<not> truthy e \<Longrightarrow> toImage e = Inr JNull"
  by (simp add: toImage_def)

lemma toArticle_error: "toArticle e = Inl err \<Longrightarrow> err = TypeError"
proof (cases "truthy e")
  case False
  assume "toArticle e = Inl err"
  with False show ?thesis by (simp add: toArticle_def)
next
  case True
  assume err: "toArticle e = Inl err"
  show ?thesis
  proof (cases "pval e ''fields'' = JUndefined \<or> pval e ''fields'' = JNull")
    case True
    with \<open>truthy e\<close> err show ?thesis by (simp add: toArticle_no_fields)
  next
    case False
    then have "pval e ''fields'' \<noteq> JUndefined" "pval e ''fields'' \<noteq> JNull" by simp_all
    from toArticle_fields [OF this] err show ?thesis by auto
  qed
qed

lemma mapE_error: "(\<And>x e. f x = Inl e \<Longrightarrow> e = TypeError) \<Longrightarrow> mapE f xs = Inl err \<Longrightarrow> err = TypeError"
proof (induction xs arbitrary: err)
  case Nil
  then show ?case by simp
next
  case (Cons x xs)
  show ?case
  proof (cases "f x")
    case (Inl e)
    with Cons.prems show ?thesis by auto
  next
    case (Inr y)
    note fx = this
    show ?thesis
    proof (cases "mapE f xs")
      case (Inl e)
      with Cons fx show ?thesis by auto
    next
      case (Inr ys)
      with Cons.prems(2) fx show ?thesis by simp
    qed
  qed
qed

lemma js_map_error:
  assumes "\<And>x e. f x = Inl e \<Longrightarrow> e = TypeError" and "js_map f v = Inl err"
  shows "err = TypeError"
proof (cases v)
  case (JArr xs)
  with assms(2) have "mapE f xs = Inl err" by simp
  with assms(1) show ?thesis by (rule mapE_error)
qed (use assms(2) in simp_all)

lemma toArticles_error: "toArticles c = Inl err \<Longrightarrow> err = TypeError"
proof -
  assume h: "toArticles c = Inl err"
  consider "\<not> truthy c" | "truthy c" "\<not> truthy (pval c ''items'')"
    | "truthy c" "truthy (pval c ''items'')" by blast
  then show ?thesis
  proof cases
    case 1
    with h show ?thesis by (simp add: toArticles_falsy)
  next
    case 2
    with h show ?thesis by (simp add: toArticles_no_items)
  next
    case 3
    with h have "js_map toArticle (pval c ''items'') = Inl err"
      by (cases "js_map toArticle (pval c ''items'')") (simp_all add: toArticles_def Let_def)
    with toArticle_error show ?thesis by (rule js_map_error)
  qed
qed

lemma toCategories_error: "toCategories c = Inl err \<Longrightarrow> err = TypeError"
proof -
  assume h: "toCategories c = Inl err"
  consider "\<not> truthy c" | "truthy c" "\<not> truthy (pval c ''items'')"
    | "truthy c" "truthy (pval c ''items'')" by blast
  then show ?thesis
  proof cases
    case 1
    with h show ?thesis by (simp add: toCategories_falsy)
  next
    case 2
    with h show ?thesis by (simp add: toCategories_no_items)
  next
    case 3
    with h have "js_map toCategory (pval c ''items'') = Inl err"
      by (cases "js_map toCategory (pval c ''items'')") (simp_all add: toCategories_def Let_def)
    moreover have "\<And>x e. toCategory x = Inl e \<Longrightarrow> e = TypeError"
      using toCategory_total by (metis Inl_Inr_False)
    ultimately show ?thesis by (rule js_map_error [rotated])
  qed
qed

lemma invalid_item_filter_eq:
  "invalid_item_filter flt =
     Inr (\<not> truthy flt \<or> (\<not> truthy (pval flt ''id'') \<and> \<not> truthy (pval flt ''slug'')))"
  by (simp add: invalid_item_filter_def)

lemma item_query_eq:
  "truthy flt \<Longrightarrow> item_query flt =
     Inr [(''include'', JNum 1), (''limit'', JNum 1),
          (if truthy (pval flt ''slug'') then (''fields.slug'', pval flt ''slug'')
           else (''sys.id'', pval flt ''id''))]"
  by (simp add: item_query_def)

lemma getArticles_eq:
  "getArticles fetch q =
     bindE (getCacheEntries fetch ARTICLE (assign ''content_type'' (JStr ''article'') q)) toArticles"
  by (simp add: getArticles_def)

lemma getCategories_eq:
  "getCategories fetch q =
     bindE (getCacheEntries fetch CATEGORY (assign ''content_type'' (JStr ''category'') q)) toCategories"
  by (simp add: getCategories_def)

lemma getCacheEntries_error: "getCacheEntries fetch ct q \<noteq> Inl InvalidFilter"
  "getCacheEntries fetch ct q \<noteq> Inl TypeError"
  by (simp_all add: getCacheEntries_def split: sum.splits)

lemma getArticles_error: "getArticles fetch q \<noteq> Inl InvalidFilter"
proof
  assume h: "getArticles fetch q = Inl InvalidFilter"
  show False
  proof (cases "getCacheEntries fetch ARTICLE (assign ''content_type'' (JStr ''article'') q)")
    case (Inl e)
    with h getCacheEntries_error(1) [of fetch ARTICLE "assign ''content_type'' (JStr ''article'') q"]
    show False by (simp add: getArticles_eq)
  next
    case (Inr c)
    with h have "toArticles c = Inl InvalidFilter" by (simp add: getArticles_eq)
    then show False by (auto dest: toArticles_error)
  qed
qed

lemma getCategories_error: "getCategories fetch q \<noteq> Inl InvalidFilter"
proof
  assume h: "getCategories fetch q = Inl InvalidFilter"
  show False
  proof (cases "getCacheEntries fetch CATEGORY (assign ''content_type'' (JStr ''category'') q)")
    case (Inl e)
    with h getCacheEntries_error(1) [of fetch CATEGORY "assign ''content_type'' (JStr ''category'') q"]
    show False by (simp add: getCategories_eq)
  next
    case (Inr c)
    with h have "toCategories c = Inl InvalidFilter" by (simp add: getCategories_eq)
    then show False by (auto dest: toCategories_error)
  qed
qed

lemma article_valid:
  "truthy flt \<Longrightarrow> truthy (pval flt ''id'') \<or> truthy (pval flt ''slug'') \<Longrightarrow>
   article fetch flt =
     bindE (getArticles fetch
        [(''include'', JNum 1), (''limit'', JNum 1),
          (if truthy (pval flt ''slug'') then (''fields.slug'', pval flt ''slug'')
           else (''sys.id'', pval flt ''id''))])
       (\<lambda>articles. Inr (first_or_null articles))"
  by (auto simp: article_def invalid_item_filter_eq item_query_eq)

lemma category_valid:
  "truthy flt \<Longrightarrow> truthy (pval flt ''id'') \<or> truthy (pval flt ''slug'') \<Longrightarrow>
   category fetch flt =
     bindE (getCategories fetch
        [(''include'', JNum 1), (''limit'', JNum 1),
          (if truthy (pval flt ''slug'') then (''fields.slug'', pval flt ''slug'')
           else (''sys.id'', pval flt ''id''))])
       (\<lambda>collection. Inr (first_or_null collection))"
  by (auto simp: category_def invalid_item_filter_eq item_query_eq)

lemma article_invalid:
  "\<not> truthy flt \<or> (\<not> truthy (pval flt ''id'') \<and> \<not> truthy (pval flt ''slug'')) \<Longrightarrow>
   article fetch flt = Inl InvalidFilter"
  by (auto simp: article_def invalid_item_filter_eq)

lemma category_invalid:
  "\<not> truthy flt \<or> (\<not> truthy (pval flt ''id'') \<and> \<not> truthy (pval flt ''slug'')) \<Longrightarrow>
   category fetch flt = Inl InvalidFilter"
  by (auto simp: category_def invalid_item_filter_eq)

lemma bindE_Inl_iff: "(bindE m f = Inl e) = (m = Inl e \<or> (\<exists>x. m = Inr x \<and> f x = Inl e))"
  by (cases m) simp_all

lemma article_rejects_iff:
  "(article fetch flt = Inl InvalidFilter) =
   (\<not> truthy flt \<or> (\<not> truthy (pval flt ''id'') \<and> \<not> truthy (pval flt ''slug'')))"
proof (cases "\<not> truthy flt \<or> (\<not> truthy (pval flt ''id'') \<and> \<not> truthy (pval flt ''slug''))")
  case True
  then show ?thesis by (simp add: article_invalid)
next
  case False
  then have "truthy flt" "truthy (pval flt ''id'') \<or> truthy (pval flt ''slug'')" by auto
  from article_valid [OF this, of fetch] False getArticles_error show ?thesis
    by (auto simp: bindE_Inl_iff)
qed

lemma category_rejects_iff:
  "(category fetch flt = Inl InvalidFilter) =
   (\<not> truthy flt \<or> (\<not> truthy (pval flt ''id'') \<and> \<not> truthy (pval flt ''slug'')))"
proof (cases "\<not> truthy flt \<or> (\<not> truthy (pval flt ''id'') \<and> \<not> truthy (pval flt ''slug''))")
  case True
  then show ?thesis by (simp add: category_invalid)
next
  case False
  then have "truthy flt" "truthy (pval flt ''id'') \<or> truthy (pval flt ''slug'')" by auto
  from category_valid [OF this, of fetch] False getCategories_error show ?thesis
    by (auto simp: bindE_Inl_iff)
qed

lemma first_or_null_empty: "items r = [] \<Longrightarrow> first_or_null r = JNull"
  by (simp add: first_or_null_def js_or_def js_and_def)

lemma toArticles_no_match:
  "\<not> truthy c \<or> \<not> truthy (pval c ''items'') \<or> pval c ''items'' = JArr [] \<Longrightarrow>
   \<exists>r. toArticles c = Inr r \<and> items r = []"
  by (cases "truthy c") (auto simp: toArticles_falsy toArticles_no_items toArticles_items)

lemma toCategories_no_match:
  "\<not> truthy c \<or> \<not> truthy (pval c ''items'') \<or> pval c ''items'' = JArr [] \<Longrightarrow>
   \<exists>r. toCategories c = Inr r \<and> items r = []"
  by (cases "truthy c") (auto simp: toCategories_falsy toCategories_no_items toCategories_items)

lemma item_query_content_type:
  "assign ''content_type'' v
     [(''include'', JNum 1), (''limit'', JNum 1),
      (if truthy s then (''fields.slug'', s) else (''sys.id'', i))]
   = [(''include'', JNum 1), (''limit'', JNum 1),
      (if truthy s then (''fields.slug'', s) else (''sys.id'', i)), (''content_type'', v)]"
  by simp

lemma getCacheEntries_Inr:
  "fetch (content_type_name ct) q = Inr c \<Longrightarrow> getCacheEntries fetch ct q = Inr c"
  by (simp add: getCacheEntries_def)

lemma articles_query_eq:
  "truthy flt \<Longrightarrow> articles_query flt =
     Inr ([(''limit'', pval flt ''limit''), (''select'', JStr list_select),
           (''order'', JStr (order_key (pval flt ''order'')))]
          @ (if truthy (pval flt ''categoryId'')
             then [(''fields.category.sys.id'', pval flt ''categoryId'')] else [])
          @ (if truthy (pval flt ''categorySlug'')
             then [(''fields.category.fields.slug'', pval flt ''categorySlug'')] else []))"
  by (simp add: articles_query_def)

lemma articles_query_content_type:
  "assign ''content_type'' v
     ([(''limit'', l), (''select'', s), (''order'', ord)]
      @ (if a then [(''fields.category.sys.id'', x)] else [])
      @ (if b then [(''fields.category.fields.slug'', y)] else []))
   = [(''limit'', l), (''select'', s), (''order'', ord)]
      @ (if a then [(''fields.category.sys.id'', x)] else [])
      @ (if b then [(''fields.category.fields.slug'', y)] else [])
      @ [(''content_type'', v)]"
  by simp

lemma articles_eq:
  "truthy flt \<Longrightarrow> articles fetch flt =
     bindE (getCacheEntries fetch ARTICLE
        ([(''limit'', pval flt ''limit''), (''select'', JStr list_select),
           (''order'', JStr (order_key (pval flt ''order'')))]
          @ (if truthy (pval flt ''categoryId'')
             then [(''fields.category.sys.id'', pval flt ''categoryId'')] else [])
          @ (if truthy (pval flt ''categorySlug'')
             then [(''fields.category.fields.slug'', pval flt ''categorySlug'')] else [])
          @ [(''content_type'', JStr ''article'')])) toArticles"
  unfolding articles_def getArticles_eq
  by (simp only: articles_query_eq bindE_Inr articles_query_content_type if_False simp_thms)

lemma has_named_parent_eq:
  "x \<noteq> JUndefined \<Longrightarrow> x \<noteq> JNull \<Longrightarrow>
   has_named_parent x = Inr (truthy (pval x ''parent'') \<and> truthy (pval (pval x ''parent'') ''name''))"
  by (simp add: has_named_parent_def getp_nonnull)

lemma has_named_parent_null:
  "x = JUndefined \<or> x = JNull \<Longrightarrow> has_named_parent x = Inl TypeError"
  by (auto simp: has_named_parent_def)

lemma filterE_named_iff:
  "(filterE has_named_parent xs = Inr ys) =
   ((\<forall>x\<in>set xs. x \<noteq> JUndefined \<and> x \<noteq> JNull) \<and>
    ys = filter (\<lambda>item. truthy (pval item ''parent'') \<and> truthy (pval (pval item ''parent'') ''name'')) xs)"
proof (induction xs arbitrary: ys)
  case Nil
  show ?case by auto
next
  case (Cons x xs)
  show ?case
  proof (cases "x = JUndefined \<or> x = JNull")
    case True
    then show ?thesis by (auto simp: has_named_parent_null)
  next
    case False
    then have hx: "has_named_parent x =
        Inr (truthy (pval x ''parent'') \<and> truthy (pval (pval x ''parent'') ''name''))"
      by (simp add: has_named_parent_eq)
    show ?thesis
    proof (cases "filterE has_named_parent xs")
      case (Inl e)
      with Cons [of "filter (\<lambda>item. truthy (pval item ''parent'') \<and> truthy (pval (pval item ''parent'') ''name'')) xs"]
      show ?thesis by (auto simp: hx)
    next
      case (Inr zs)
      with Cons [of zs] False show ?thesis by (auto simp: hx)
    qed
  qed
qed

lemma mainCategories_eq:
  "mainCategories fetch limit =
     bindE (getCacheEntries fetch CATEGORY
        [(''order'', JStr ''fields.slug''), (''limit'', JNum (js_add limit 10)),
         (''content_type'', JStr ''category'')])
       (\<lambda>c. bindE (toCategories c) (\<lambda>r. bindE (filterE has_named_parent (items r))
          (\<lambda>kept. Inr (slice0 kept limit))))"
  by (simp add: mainCategories_def getCategoriesList_def getCategories_def bindE_def
        split: sum.splits)

lemma getCacheEntries_Inr_iff:
  "(getCacheEntries fetch ct q = Inr c) = (fetch (content_type_name ct) q = Inr c)"
  by (simp add: getCacheEntries_def split: sum.splits)

lemma toCategory_ancestor:
  "toCategory e = Inr c \<Longrightarrow> \<forall>k\<le>n. truthy (raw_ancestor k e) \<Longrightarrow>
   toCategory (raw_ancestor n e) = Inr (ancestor n c)"
proof (induction n arbitrary: e c)
  case 0
  then show ?case by simp
next
  case (Suc n)
  from Suc.prems(2) have te: "truthy e" by (auto dest: spec [of _ 0])
  from Suc.prems(2) have "truthy (raw_ancestor (Suc 0) e)" by (auto dest: spec [of _ "Suc 0"])
  then have tp: "truthy (pval (pval e ''fields'') ''parent'')" by simp
  have p: "toCategory (pval (pval e ''fields'') ''parent'') = Inr (pval c ''parent'')"
    using te tp Suc.prems(1) by (rule toCategory_parent)
  have "\<forall>k\<le>n. truthy (raw_ancestor k (pval (pval e ''fields'') ''parent''))"
  proof (intro allI impI)
    fix k assume "k \<le> n"
    then have "Suc k \<le> Suc n" by simp
    with Suc.prems(2) have "truthy (raw_ancestor (Suc k) e)" by blast
    then show "truthy (raw_ancestor k (pval (pval e ''fields'') ''parent''))" by simp
  qed
  from Suc.IH [OF p this] show ?case by simp
qed

lemma bitlen_two_53: "bitlen 9007199254740992 = 54"
  by (simp add: bitlen.simps)

lemma round_double_exact: "\<bar>x\<bar> \<le> 2 ^ 53 \<Longrightarrow> round_double x = x"
proof (cases "\<bar>x\<bar> < 2 ^ 53")
  case True
  then show ?thesis by (simp add: round_double_def ulp_def Let_def mult_sgn_abs)
next
  case False
  assume "\<bar>x\<bar> \<le> 2 ^ 53"
  with False have "\<bar>x\<bar> = 9007199254740992" by simp
  then have "x = 9007199254740992 \<or> x = - 9007199254740992" by arith
  then show ?thesis
    by (auto simp: round_double_def ulp_def Let_def bitlen_two_53)
qed

lemma js_add_exact: "\<bar>a + b\<bar> \<le> 2 ^ 53 \<Longrightarrow> js_add a b = a + b"
  by (simp add: js_add_def round_double_exact)

lemma js_add_max_safe: "js_add 9007199254740991 10 = 9007199254741000"
proof -
  have b: "bitlen 9007199254741001 = 54" by (simp add: bitlen.simps)
  show ?thesis by (simp add: js_add_def round_double_def ulp_def Let_def b)
qed

lemma toCategory_keys:
  "\<exists>c. toCategory e = Inr c \<and>
     has_key c ''id'' = truthy e \<and>
     has_key c ''name'' = truthy (pval e ''fields'') \<and>
     has_key c ''slug'' = truthy (pval e ''fields'')"
proof (cases "truthy e")
  case False
  then show ?thesis by (simp add: toCategory_falsy has_key_def)
next
  case True
  obtain p where "toCategory (pval (pval e ''fields'') ''parent'') = Inr p"
    using toCategory_total by blast
  then show ?thesis
    unfolding toCategory_truthy [OF True]
    using True by (auto simp: has_key_def)
qed

lemma toArticle_keys:
  assumes "pval e ''fields'' \<noteq> JUndefined" and "pval e ''fields'' \<noteq> JNull"
  shows "\<exists>a. toArticle e = Inr a \<and>
     has_key a ''id'' \<and> has_key a ''createdAt'' \<and> has_key a ''updatedAt'' \<and>
     has_key a ''title'' \<and> has_key a ''slug'' \<and> has_key a ''summary'' \<and>
     has_key a ''countViews''"
proof -
  from assms(1) have te: "truthy e" by (rule pval_defined_truthy)
  obtain c where c: "toCategory (pval (pval e ''fields'') ''category'') = Inr c"
    using toCategory_total by blast
  obtain i where i: "toImage (pval (pval e ''fields'') ''image'') = Inr i"
    using toImage_total by blast
  show ?thesis
    using te c i
    by (simp add: toArticle_def getp_nonnull [OF assms] Let_def has_key_def)
qed

section \<open>Collections: \<open>toArticles\<close> and \<open>toCategories\<close>\<close>

text \<open>
  C1. The invariant \<open>items.length <= total\<close> of a normalized collection. The branch that
  maps the items never assigns \<open>data.total\<close>, while the branch without items does copy
  \<open>collection.total\<close>: a raw collection of two items that reports a total of 2 is
  normalized to two items with total 0, by \<open>toArticles\<close> and by \<open>toCategories\<close> alike.
\<close>

theorem collection_total_dropped:
  "toArticles (JObj [(''total'', JNum 2), (''items'', JArr
       [JObj [(''id'', JStr ''a''), (''fields'', JObj [(''title'', JStr ''A'')])],
        JObj [(''id'', JStr ''b''), (''fields'', JObj [(''title'', JStr ''B'')])]])])
   = Inr \<lparr>total = JNum 0, items =
       [JObj [(''id'', JStr ''a''), (''createdAt'', JUndefined), (''updatedAt'', JUndefined),
              (''title'', JStr ''A''), (''slug'', JUndefined), (''summary'', JUndefined),
              (''countViews'', JNum 1)],
        JObj [(''id'', JStr ''b''), (''createdAt'', JUndefined), (''updatedAt'', JUndefined),
              (''title'', JStr ''B''), (''slug'', JUndefined), (''summary'', JUndefined),
              (''countViews'', JNum 1)]]\<rparr>
   \<and>
   toCategories (JObj [(''total'', JNum 2), (''items'', JArr
       [JObj [(''id'', JStr ''a''), (''fields'', JObj [(''name'', JStr ''A'')])],
        JObj [(''id'', JStr ''b''), (''fields'', JObj [(''name'', JStr ''B'')])]])])
   = Inr \<lparr>total = JNum 0, items =
       [JObj [(''id'', JStr ''a''), (''name'', JStr ''A''), (''slug'', JUndefined)],
        JObj [(''id'', JStr ''b''), (''name'', JStr ''B''), (''slug'', JUndefined)]]\<rparr>"
  by (simp add: toArticles_def toCategories_def toArticle_def toCategory_truthy js_or_def)

text \<open>
  C2. \<open>toArticles\<close> and \<open>toCategories\<close> by case: an absent collection gives
  \<open>{total: 0, items: []}\<close>; a collection with a total and no items gives that total and no
  items; a collection whose \<open>items\<close> is an array gives the per-item results in the order
  of the array, with \<open>total\<close> left at 0 whatever the raw total is. With items, \<open>toArticles\<close>
  returns exactly when \<open>toArticle\<close> returns on every item, and \<open>toCategories\<close> always.
\<close>

theorem collections_by_case:
  "(\<not> truthy c \<longrightarrow>
      toArticles c = Inr \<lparr>total = JNum 0, items = []\<rparr> \<and>
      toCategories c = Inr \<lparr>total = JNum 0, items = []\<rparr>) \<and>
   (truthy c \<and> pval c ''items'' = JUndefined \<and> pval c ''total'' = JNum t \<longrightarrow>
      toArticles c = Inr \<lparr>total = JNum t, items = []\<rparr> \<and>
      toCategories c = Inr \<lparr>total = JNum t, items = []\<rparr>) \<and>
   (truthy c \<and> pval c ''items'' = JArr xs \<longrightarrow>
      (\<forall>r. (toArticles c = Inr r) =
             (total r = JNum 0 \<and> list_all2 (\<lambda>x y. toArticle x = Inr y) xs (items r))) \<and>
      (\<forall>r. (toCategories c = Inr r) =
             (total r = JNum 0 \<and> list_all2 (\<lambda>x y. toCategory x = Inr y) xs (items r))) \<and>
      (\<exists>r. toCategories c = Inr r))"
proof (intro conjI impI)
  assume "\<not> truthy c"
  then show "toArticles c = Inr \<lparr>total = JNum 0, items = []\<rparr>"
    and "toCategories c = Inr \<lparr>total = JNum 0, items = []\<rparr>"
    by (simp_all add: toArticles_falsy toCategories_falsy)
next
  assume h: "truthy c \<and> pval c ''items'' = JUndefined \<and> pval c ''total'' = JNum t"
  then show "toArticles c = Inr \<lparr>total = JNum t, items = []\<rparr>"
    by (cases "t = 0") (simp_all add: toArticles_no_items js_or_def)
  from h show "toCategories c = Inr \<lparr>total = JNum t, items = []\<rparr>"
    by (cases "t = 0") (simp_all add: toCategories_no_items js_or_def)
next
  assume h: "truthy c \<and> pval c ''items'' = JArr xs"
  then show "\<forall>r. (toArticles c = Inr r) =
             (total r = JNum 0 \<and> list_all2 (\<lambda>x y. toArticle x = Inr y) xs (items r))"
    by (auto simp: toArticles_items bindE_Inr_iff mapE_Inr_iff)
  from h show "\<forall>r. (toCategories c = Inr r) =
             (total r = JNum 0 \<and> list_all2 (\<lambda>x y. toCategory x = Inr y) xs (items r))"
    by (auto simp: toCategories_items bindE_Inr_iff mapE_Inr_iff)
  from mapE_total [of toCategory xs] toCategory_total
  obtain ys where "mapE toCategory xs = Inr ys" by blast
  with h show "\<exists>r. toCategories c = Inr r"
    by (simp add: toCategories_items)
qed

theorem collections_by_case_witness:
  "toArticles JUndefined = Inr \<lparr>total = JNum 0, items = []\<rparr> \<and>
   toCategories (JObj [(''total'', JNum 5)]) = Inr \<lparr>total = JNum 5, items = []\<rparr> \<and>
   (toArticles (JObj [(''total'', JNum 5), (''items'', JArr [JNull, JNull])])
      = Inr \<lparr>total = JNum 0, items = [JNull, JNull]\<rparr>)"
  using collections_by_case [of JUndefined 0 "[]"]
    collections_by_case [of "JObj [(''total'', JNum 5)]" 5 "[]"]
    collections_by_case [of "JObj [(''total'', JNum 5), (''items'', JArr [JNull, JNull])]" 0
      "[JNull, JNull]"]
  by (simp add: toArticle_def)

section \<open>Single entities: \<open>toArticle\<close>, \<open>toCategory\<close>, \<open>toImage\<close>\<close>

text \<open>
  C3. \<open>toArticle\<close> and \<open>toCategory\<close> on a raw payload with optional fields omitted.
  \<open>toCategory\<close> returns on every value. \<open>toArticle\<close> returns on every payload that has
  its \<open>fields\<close> member (the required member of a raw entity; it may hold any subset of the
  optional fields). What an omitted input field leaves on the output depends on how the
  field is mapped. The keys \<open>text\<close>, \<open>category\<close>, \<open>image\<close> and \<open>parent\<close> are assigned
  under a guard: for an omitted field the key is not created. The keys \<open>id\<close>,
  \<open>createdAt\<close>, \<open>updatedAt\<close>, \<open>title\<close>, \<open>slug\<close>, \<open>summary\<close> of an article are always
  created, and so are \<open>id\<close> of a category and its \<open>name\<close> and \<open>slug\<close> when the raw
  category has \<open>fields\<close>: for an omitted field the key is there and holds \<open>undefined\<close>,
  never \<open>null\<close> and never an empty string. \<open>countViews\<close> is always there, and it is 1
  when the input has none or a falsy one.
\<close>

theorem normalizers_total_keep_absence:
  "(\<exists>c. toCategory e = Inr c \<and>
      has_key c ''id'' = truthy e \<and>
      has_key c ''name'' = truthy (pval e ''fields'') \<and>
      has_key c ''slug'' = truthy (pval e ''fields'') \<and>
      (pval e ''id'' = JUndefined \<longrightarrow> pval c ''id'' = JUndefined) \<and>
      (pval (pval e ''fields'') ''name'' = JUndefined \<longrightarrow> pval c ''name'' = JUndefined) \<and>
      (pval (pval e ''fields'') ''slug'' = JUndefined \<longrightarrow> pval c ''slug'' = JUndefined) \<and>
      (pval (pval e ''fields'') ''parent'' = JUndefined \<longrightarrow> \<not> has_key c ''parent'')) \<and>
   (pval e ''fields'' \<noteq> JUndefined \<and> pval e ''fields'' \<noteq> JNull \<longrightarrow>
    (\<exists>a. toArticle e = Inr a \<and>
      has_key a ''id'' \<and> has_key a ''createdAt'' \<and> has_key a ''updatedAt'' \<and>
      has_key a ''title'' \<and> has_key a ''slug'' \<and> has_key a ''summary'' \<and>
      has_key a ''countViews'' \<and>
      (pval e ''id'' = JUndefined \<longrightarrow> pval a ''id'' = JUndefined) \<and>
      (pval e ''createdAt'' = JUndefined \<longrightarrow> pval a ''createdAt'' = JUndefined) \<and>
      (pval e ''updatedAt'' = JUndefined \<longrightarrow> pval a ''updatedAt'' = JUndefined) \<and>
      (pval (pval e ''fields'') ''title'' = JUndefined \<longrightarrow> pval a ''title'' = JUndefined) \<and>
      (pval (pval e ''fields'') ''slug'' = JUndefined \<longrightarrow> pval a ''slug'' = JUndefined) \<and>
      (pval (pval e ''fields'') ''summary'' = JUndefined \<longrightarrow> pval a ''summary'' = JUndefined) \<and>
      (pval (pval e ''fields'') ''text'' = JUndefined \<longrightarrow> \<not> has_key a ''text'') \<and>
      (pval (pval e ''fields'') ''category'' = JUndefined \<longrightarrow> \<not> has_key a ''category'') \<and>
      (pval (pval e ''fields'') ''image'' = JUndefined \<longrightarrow> \<not> has_key a ''image'') \<and>
      (\<not> truthy (pval (pval e ''fields'') ''countViews'') \<longrightarrow>
         pval a ''countViews'' = JNum 1)))"
proof (intro conjI impI)
  from toCategory_fields [of e] obtain c where
    c: "toCategory e = Inr c" "pval c ''id'' = pval e ''id''"
      "pval c ''name'' = pval (pval e ''fields'') ''name''"
      "pval c ''slug'' = pval (pval e ''fields'') ''slug''"
      "has_key c ''parent'' = truthy (pval (pval e ''fields'') ''parent'')"
    by blast
  from toCategory_keys [of e] c(1) have
    k: "has_key c ''id'' = truthy e"
      "has_key c ''name'' = truthy (pval e ''fields'')"
      "has_key c ''slug'' = truthy (pval e ''fields'')"
    by auto
  show "\<exists>c. toCategory e = Inr c \<and>
      has_key c ''id'' = truthy e \<and>
      has_key c ''name'' = truthy (pval e ''fields'') \<and>
      has_key c ''slug'' = truthy (pval e ''fields'') \<and>
      (pval e ''id'' = JUndefined \<longrightarrow> pval c ''id'' = JUndefined) \<and>
      (pval (pval e ''fields'') ''name'' = JUndefined \<longrightarrow> pval c ''name'' = JUndefined) \<and>
      (pval (pval e ''fields'') ''slug'' = JUndefined \<longrightarrow> pval c ''slug'' = JUndefined) \<and>
      (pval (pval e ''fields'') ''parent'' = JUndefined \<longrightarrow> \<not> has_key c ''parent'')"
    by (rule exI [of _ c]) (simp add: c k)
next
  assume "pval e ''fields'' \<noteq> JUndefined \<and> pval e ''fields'' \<noteq> JNull"
  then have f: "pval e ''fields'' \<noteq> JUndefined" "pval e ''fields'' \<noteq> JNull" by simp_all
  from toArticle_fields [OF f] obtain a where
    a: "toArticle e = Inr a" "pval a ''id'' = pval e ''id''"
     "pval a ''createdAt'' = pval e ''createdAt''"
     "pval a ''updatedAt'' = pval e ''updatedAt''"
     "pval a ''title'' = pval (pval e ''fields'') ''title''"
     "pval a ''slug'' = pval (pval e ''fields'') ''slug''"
     "pval a ''summary'' = pval (pval e ''fields'') ''summary''"
     "pval a ''countViews'' = js_or (pval (pval e ''fields'') ''countViews'') (JNum 1)"
     "has_key a ''text'' = truthy (pval (pval e ''fields'') ''text'')"
     "has_key a ''category'' = truthy (pval (pval e ''fields'') ''category'')"
     "has_key a ''image'' = truthy (pval (pval e ''fields'') ''image'')"
    by blast
  from toArticle_keys [OF f] a(1) have
    k: "has_key a ''id''" "has_key a ''createdAt''" "has_key a ''updatedAt''"
      "has_key a ''title''" "has_key a ''slug''" "has_key a ''summary''"
      "has_key a ''countViews''"
    by auto
  show "\<exists>a. toArticle e = Inr a \<and>
      has_key a ''id'' \<and> has_key a ''createdAt'' \<and> has_key a ''updatedAt'' \<and>
      has_key a ''title'' \<and> has_key a ''slug'' \<and> has_key a ''summary'' \<and>
      has_key a ''countViews'' \<and>
      (pval e ''id'' = JUndefined \<longrightarrow> pval a ''id'' = JUndefined) \<and>
      (pval e ''createdAt'' = JUndefined \<longrightarrow> pval a ''createdAt'' = JUndefined) \<and>
      (pval e ''updatedAt'' = JUndefined \<longrightarrow> pval a ''updatedAt'' = JUndefined) \<and>
      (pval (pval e ''fields'') ''title'' = JUndefined \<longrightarrow> pval a ''title'' = JUndefined) \<and>
      (pval (pval e ''fields'') ''slug'' = JUndefined \<longrightarrow> pval a ''slug'' = JUndefined) \<and>
      (pval (pval e ''fields'') ''summary'' = JUndefined \<longrightarrow> pval a ''summary'' = JUndefined) \<and>
      (pval (pval e ''fields'') ''text'' = JUndefined \<longrightarrow> \<not> has_key a ''text'') \<and>
      (pval (pval e ''fields'') ''category'' = JUndefined \<longrightarrow> \<not> has_key a ''category'') \<and>
      (pval (pval e ''fields'') ''image'' = JUndefined \<longrightarrow> \<not> has_key a ''image'') \<and>
      (\<not> truthy (pval (pval e ''fields'') ''countViews'') \<longrightarrow>
         pval a ''countViews'' = JNum 1)"
    by (rule exI [of _ a]) (simp add: a k js_or_def)
qed

theorem normalizers_total_keep_absence_witness:
  "toCategory (JObj [(''id'', JStr ''c''), (''fields'', JObj [(''name'', JStr ''News'')])])
     = Inr (JObj [(''id'', JStr ''c''), (''name'', JStr ''News''), (''slug'', JUndefined)]) \<and>
   toArticle (JObj [(''id'', JStr ''a''), (''fields'', JObj [(''title'', JStr ''T'')])])
     = Inr (JObj [(''id'', JStr ''a''), (''createdAt'', JUndefined), (''updatedAt'', JUndefined),
                  (''title'', JStr ''T''), (''slug'', JUndefined), (''summary'', JUndefined),
                  (''countViews'', JNum 1)])"
  using normalizers_total_keep_absence
    [of "JObj [(''id'', JStr ''c''), (''fields'', JObj [(''name'', JStr ''News'')])]"]
    normalizers_total_keep_absence
    [of "JObj [(''id'', JStr ''a''), (''fields'', JObj [(''title'', JStr ''T'')])]"]
  by (simp add: toArticle_def toCategory_truthy js_or_def)

text \<open>
  C3, as stated, says that every omitted input field is absent on the output. On an article
  whose \<open>fields\<close> has no \<open>title\<close>, the object literal of \<open>toArticle\<close> still creates the
  \<open>title\<close> key: the result has it, holding \<open>undefined\<close>.
\<close>

theorem omitted_title_keeps_its_key:
  "toArticle (JObj [(''id'', JStr ''a''), (''fields'', JObj [])])
     = Inr (JObj [(''id'', JStr ''a''), (''createdAt'', JUndefined), (''updatedAt'', JUndefined),
                  (''title'', JUndefined), (''slug'', JUndefined), (''summary'', JUndefined),
                  (''countViews'', JNum 1)]) \<and>
   \<not> has_key (JObj []) ''title'' \<and>
   has_key (JObj [(''id'', JStr ''a''), (''createdAt'', JUndefined), (''updatedAt'', JUndefined),
                  (''title'', JUndefined), (''slug'', JUndefined), (''summary'', JUndefined),
                  (''countViews'', JNum 1)]) ''title''"
  by (simp add: toArticle_def js_or_def has_key_def)

text \<open>
  C8. \<open>toImage\<close> on a non-absent raw entity, with \<open>file = entity.fields.file\<close>,
  \<open>details = file.details\<close> and \<open>img = details.image\<close> (each \<open>undefined\<close> when the level
  above is absent): it never throws; it always sets \<open>id\<close>; it sets \<open>url\<close> and
  \<open>contentType\<close> exactly when \<open>file\<close> has a truthy one, and copies it; it sets the
  \<open>size\<close> key exactly when \<open>details\<close> is present, to \<open>details.size\<close>, which is
  \<open>undefined\<close> when \<open>details\<close> has no size; it sets \<open>width\<close> and \<open>height\<close> exactly
  when \<open>details.image\<close> is present.
\<close>

theorem toImage_keys:
  assumes "truthy entity"
    and "file = pval (pval entity ''fields'') ''file''"
    and "details = pval file ''details''"
    and "img = pval details ''image''"
  shows "\<exists>data. toImage entity = Inr data \<and>
     has_key data ''id'' \<and> pval data ''id'' = pval entity ''id'' \<and>
     has_key data ''url'' = truthy (pval file ''url'') \<and>
     (truthy (pval file ''url'') \<longrightarrow> pval data ''url'' = pval file ''url'') \<and>
     has_key data ''contentType'' = truthy (pval file ''contentType'') \<and>
     (truthy (pval file ''contentType'') \<longrightarrow> pval data ''contentType'' = pval file ''contentType'') \<and>
     has_key data ''size'' = truthy details \<and>
     pval data ''size'' = pval details ''size'' \<and>
     has_key data ''width'' = truthy img \<and>
     pval data ''width'' = pval img ''width'' \<and>
     has_key data ''height'' = truthy img \<and>
     pval data ''height'' = pval img ''height''"
proof (cases "truthy file")
  case False
  with assms show ?thesis
    by (simp add: toImage_def Let_def has_key_def)
next
  case True
  then have tf: "truthy (pval entity ''fields'')"
    unfolding assms(2) by (rule truthy_pval)
  show ?thesis
  proof (cases "truthy details")
    case False
    with assms True tf show ?thesis
      by (simp add: toImage_def Let_def has_key_def)
  next
    case td: True
    show ?thesis
    proof (cases "truthy img")
      case False
      with assms True tf td show ?thesis
        by (simp add: toImage_def Let_def has_key_def)
    next
      case ti: True
      with assms True tf td show ?thesis
        by (simp add: toImage_def Let_def has_key_def)
    qed
  qed
qed

text \<open>
  At the example \<open>{fields: {file: {url: 'u', details: {image: {width: 10, height: 20}}}}}\<close>
  the result has the keys \<open>id\<close>, \<open>url\<close>, \<open>size\<close>, \<open>width\<close>, \<open>height\<close> and no
  \<open>contentType\<close>.
\<close>

theorem toImage_keys_witness:
  "truthy image_example \<and>
   (\<exists>data. toImage image_example = Inr data \<and>
      has_key data ''id'' \<and> pval data ''id'' = JUndefined \<and>
      has_key data ''url'' \<and> pval data ''url'' = JStr ''u'' \<and>
      \<not> has_key data ''contentType'' \<and>
      has_key data ''size'' \<and> pval data ''size'' = JUndefined \<and>
      has_key data ''width'' \<and> pval data ''width'' = JNum 10 \<and>
      has_key data ''height'' \<and> pval data ''height'' = JNum 20)"
  using toImage_keys [of
    image_example
    "JObj [(''url'', JStr ''u''), (''details'',
       JObj [(''image'', JObj [(''width'', JNum 10), (''height'', JNum 20)])])]"
    "JObj [(''image'', JObj [(''width'', JNum 10), (''height'', JNum 20)])]"
    "JObj [(''width'', JNum 10), (''height'', JNum 20)]"]
  by simp

text \<open>
  C8, as stated, says that the example yields no \<open>size\<close> key. \<open>details\<close> is present there,
  so \<open>data.size = entity.fields.file.details.size\<close> runs and creates the key, holding
  \<open>undefined\<close>: the result is \<open>{id: undefined, url: 'u', size: undefined, width: 10, height: 20}\<close>.
\<close>

theorem toImage_example_has_size_key:
  "toImage image_example
   = Inr (JObj [(''id'', JUndefined), (''url'', JStr ''u''), (''size'', JUndefined),
                (''width'', JNum 10), (''height'', JNum 20)]) \<and>
   has_key (JObj [(''id'', JUndefined), (''url'', JStr ''u''), (''size'', JUndefined),
                  (''width'', JNum 10), (''height'', JNum 20)]) ''size''"
  by (simp add: toImage_def has_key_def)

text \<open>
  C9. The parent of a normalized category. For a non-absent raw category, \<open>toCategory\<close>
  returns a fully-formed category; it has a \<open>parent\<close> key exactly when the raw
  \<open>fields.parent\<close> is present, and that parent is \<open>toCategory\<close> of the raw parent, again
  fully-formed. The recursion follows the raw parent chain as deep as the payload nests
  it: at every depth \<open>n\<close> down to which the raw ancestors are there, the \<open>n\<close>-th ancestor
  of the result is \<open>toCategory\<close> of the \<open>n\<close>-th raw ancestor.
\<close>

theorem toCategory_parent_chain:
  assumes "truthy entity" and "parent = pval (pval entity ''fields'') ''parent''"
  shows "\<exists>data. toCategory entity = Inr data \<and> is_category data \<and>
     has_key data ''parent'' = truthy parent \<and>
     (truthy parent \<longrightarrow>
        toCategory parent = Inr (pval data ''parent'') \<and> is_category (pval data ''parent'')) \<and>
     ((\<forall>k\<le>n. truthy (raw_ancestor k entity)) \<longrightarrow>
        toCategory (raw_ancestor n entity) = Inr (ancestor n data) \<and>
        is_category (ancestor n data))"
proof -
  from toCategory_fields [of entity] obtain data where
    d: "toCategory entity = Inr data"
      "has_key data ''parent'' = truthy (pval (pval entity ''fields'') ''parent'')"
    by blast
  have isc: "is_category data"
    using assms(1) d(1) by (rule toCategory_is_category)
  from d(2) have hk: "has_key data ''parent'' = truthy parent"
    by (simp add: assms(2))
  have step: "truthy parent \<longrightarrow>
        toCategory parent = Inr (pval data ''parent'') \<and> is_category (pval data ''parent'')"
  proof
    assume tp: "truthy parent"
    then have tp': "truthy (pval (pval entity ''fields'') ''parent'')"
      by (simp add: assms(2))
    have p: "toCategory parent = Inr (pval data ''parent'')"
      unfolding assms(2) using assms(1) tp' d(1) by (rule toCategory_parent)
    moreover have "is_category (pval data ''parent'')"
      using tp p by (rule toCategory_is_category)
    ultimately show "toCategory parent = Inr (pval data ''parent'') \<and>
        is_category (pval data ''parent'')" by simp
  qed
  have deep: "(\<forall>k\<le>n. truthy (raw_ancestor k entity)) \<longrightarrow>
        toCategory (raw_ancestor n entity) = Inr (ancestor n data) \<and>
        is_category (ancestor n data)"
  proof
    assume all: "\<forall>k\<le>n. truthy (raw_ancestor k entity)"
    have a: "toCategory (raw_ancestor n entity) = Inr (ancestor n data)"
      using d(1) all by (rule toCategory_ancestor)
    moreover from all have "truthy (raw_ancestor n entity)" by simp
    then have "is_category (ancestor n data)"
      using a by (rule toCategory_is_category)
    ultimately show "toCategory (raw_ancestor n entity) = Inr (ancestor n data) \<and>
        is_category (ancestor n data)" by simp
  qed
  from d(1) isc hk step deep show ?thesis by (intro exI [of _ data] conjI)
qed

theorem toCategory_parent_chain_witness:
  "truthy raw_child \<and> truthy (raw_ancestor (Suc 0) raw_child) \<and>
   truthy (raw_ancestor (Suc (Suc 0)) raw_child) \<and>
   (\<exists>data. toCategory raw_child = Inr data \<and> is_category data \<and> has_key data ''parent'' \<and>
      toCategory raw_parent = Inr (pval data ''parent'') \<and>
      toCategory raw_grandparent = Inr (pval (pval data ''parent'') ''parent'') \<and>
      is_category (pval (pval data ''parent'') ''parent''))"
proof -
  have all: "\<forall>k\<le>2. truthy (raw_ancestor k raw_child)"
  proof (intro allI impI)
    fix k :: nat
    assume "k \<le> 2"
    then have "k = 0 \<or> k = Suc 0 \<or> k = Suc (Suc 0)" by arith
    then show "truthy (raw_ancestor k raw_child)" by auto
  qed
  have two: "raw_ancestor 2 raw_child = raw_grandparent"
    "\<And>d. ancestor 2 d = pval (pval d ''parent'') ''parent''"
    by (simp_all add: numeral_2_eq_2)
  from toCategory_parent_chain [of raw_child raw_parent 2] all
  obtain data where d: "toCategory raw_child = Inr data" "is_category data"
      "has_key data ''parent'' = truthy raw_parent"
      "toCategory raw_parent = Inr (pval data ''parent'')"
      "toCategory (raw_ancestor 2 raw_child) = Inr (ancestor 2 data)"
      "is_category (ancestor 2 data)"
    by auto
  from d show ?thesis unfolding two
    by (intro conjI exI [of _ data]) simp_all
qed

text \<open>
  C9, as stated, says that normalization recurses exactly one level and leaves the parent
  of a parent as it is. On a payload of three levels the grandparent comes out normalized:
  it is \<open>toCategory\<close> of the raw grandparent, not the raw grandparent.
\<close>

theorem toCategory_normalizes_grandparent:
  "toCategory raw_child = Inr (JObj [(''id'', JStr ''c''), (''name'', JStr ''C''), (''slug'', JUndefined),
      (''parent'', JObj [(''id'', JStr ''p''), (''name'', JStr ''P''), (''slug'', JUndefined),
         (''parent'', JObj [(''id'', JStr ''g''), (''name'', JStr ''G''), (''slug'', JStr ''g'')])])])
   \<and> toCategory raw_grandparent = Inr (JObj [(''id'', JStr ''g''), (''name'', JStr ''G''), (''slug'', JStr ''g'')])
   \<and> raw_grandparent \<noteq> JObj [(''id'', JStr ''g''), (''name'', JStr ''G''), (''slug'', JStr ''g'')]"
  by (simp add: toCategory_truthy)

section \<open>The facade: single-item lookups\<close>

text \<open>
  C4. \<open>article(filter)\<close> and \<open>category(filter)\<close> reject with the invalid-filter error
  exactly when the filter is absent or gives neither an \<open>id\<close> nor a \<open>slug\<close> (the guard
  reads both by truthiness, so "gives" means a non-empty value); a filter with only a slug
  is not rejected so. Every other rejection is the collaborator's or a \<open>TypeError\<close> of
  normalization. When the filter is valid and the collaborator resolves to a collection
  without items for the query built, the lookup resolves to \<open>null\<close>.
\<close>

theorem item_lookup_rejects_exactly:
  "(article fetch flt = Inl InvalidFilter) =
     (\<not> truthy flt \<or> (\<not> truthy (pval flt ''id'') \<and> \<not> truthy (pval flt ''slug''))) \<and>
   (category fetch flt = Inl InvalidFilter) =
     (\<not> truthy flt \<or> (\<not> truthy (pval flt ''id'') \<and> \<not> truthy (pval flt ''slug''))) \<and>
   (truthy flt \<and> truthy (pval flt ''slug'') \<longrightarrow>
      article fetch flt \<noteq> Inl InvalidFilter \<and> category fetch flt \<noteq> Inl InvalidFilter) \<and>
   (truthy flt \<and> (truthy (pval flt ''id'') \<or> truthy (pval flt ''slug'')) \<and>
    fetch ''article''
      [(''include'', JNum 1), (''limit'', JNum 1),
       (if truthy (pval flt ''slug'') then (''fields.slug'', pval flt ''slug'')
        else (''sys.id'', pval flt ''id'')),
       (''content_type'', JStr ''article'')] = Inr c \<and>
    (\<not> truthy c \<or> \<not> truthy (pval c ''items'') \<or> pval c ''items'' = JArr []) \<longrightarrow>
      article fetch flt = Inr JNull) \<and>
   (truthy flt \<and> (truthy (pval flt ''id'') \<or> truthy (pval flt ''slug'')) \<and>
    fetch ''category''
      [(''include'', JNum 1), (''limit'', JNum 1),
       (if truthy (pval flt ''slug'') then (''fields.slug'', pval flt ''slug'')
        else (''sys.id'', pval flt ''id'')),
       (''content_type'', JStr ''category'')] = Inr c \<and>
    (\<not> truthy c \<or> \<not> truthy (pval c ''items'') \<or> pval c ''items'' = JArr []) \<longrightarrow>
      category fetch flt = Inr JNull)"
proof (intro conjI impI)
  show "(article fetch flt = Inl InvalidFilter) =
     (\<not> truthy flt \<or> (\<not> truthy (pval flt ''id'') \<and> \<not> truthy (pval flt ''slug'')))"
    by (rule article_rejects_iff)
  show "(category fetch flt = Inl InvalidFilter) =
     (\<not> truthy flt \<or> (\<not> truthy (pval flt ''id'') \<and> \<not> truthy (pval flt ''slug'')))"
    by (rule category_rejects_iff)
next
  assume "truthy flt \<and> truthy (pval flt ''slug'')"
  then show "article fetch flt \<noteq> Inl InvalidFilter" "category fetch flt \<noteq> Inl InvalidFilter"
    by (simp_all add: article_rejects_iff category_rejects_iff)
next
  assume h: "truthy flt \<and> (truthy (pval flt ''id'') \<or> truthy (pval flt ''slug'')) \<and>
    fetch ''article''
      [(''include'', JNum 1), (''limit'', JNum 1),
       (if truthy (pval flt ''slug'') then (''fields.slug'', pval flt ''slug'')
        else (''sys.id'', pval flt ''id'')),
       (''content_type'', JStr ''article'')] = Inr c \<and>
    (\<not> truthy c \<or> \<not> truthy (pval c ''items'') \<or> pval c ''items'' = JArr [])"
  then have v: "truthy flt" "truthy (pval flt ''id'') \<or> truthy (pval flt ''slug'')" by simp_all
  from h obtain r where r: "toArticles c = Inr r" "items r = []"
    using toArticles_no_match [of c] by blast
  from h have "getCacheEntries fetch ARTICLE
      [(''include'', JNum 1), (''limit'', JNum 1),
       (if truthy (pval flt ''slug'') then (''fields.slug'', pval flt ''slug'')
        else (''sys.id'', pval flt ''id'')),
       (''content_type'', JStr ''article'')] = Inr c"
    by (intro getCacheEntries_Inr) simp
  with r show "article fetch flt = Inr JNull"
    unfolding article_valid [OF v] getArticles_eq item_query_content_type
    by (simp add: first_or_null_empty)
next
  assume h: "truthy flt \<and> (truthy (pval flt ''id'') \<or> truthy (pval flt ''slug'')) \<and>
    fetch ''category''
      [(''include'', JNum 1), (''limit'', JNum 1),
       (if truthy (pval flt ''slug'') then (''fields.slug'', pval flt ''slug'')
        else (''sys.id'', pval flt ''id'')),
       (''content_type'', JStr ''category'')] = Inr c \<and>
    (\<not> truthy c \<or> \<not> truthy (pval c ''items'') \<or> pval c ''items'' = JArr [])"
  then have v: "truthy flt" "truthy (pval flt ''id'') \<or> truthy (pval flt ''slug'')" by simp_all
  from h obtain r where r: "toCategories c = Inr r" "items r = []"
    using toCategories_no_match [of c] by blast
  from h have "getCacheEntries fetch CATEGORY
      [(''include'', JNum 1), (''limit'', JNum 1),
       (if truthy (pval flt ''slug'') then (''fields.slug'', pval flt ''slug'')
        else (''sys.id'', pval flt ''id'')),
       (''content_type'', JStr ''category'')] = Inr c"
    by (intro getCacheEntries_Inr) simp
  with r show "category fetch flt = Inr JNull"
    unfolding category_valid [OF v] getCategories_eq item_query_content_type
    by (simp add: first_or_null_empty)
qed

theorem item_lookup_rejects_exactly_witness:
  "article (resolve_with (JObj [(''total'', JNum 0), (''items'', JArr [])])) (JObj [])
     = Inl InvalidFilter \<and>
   category (resolve_with (JObj [(''total'', JNum 0), (''items'', JArr [])])) JUndefined
     = Inl InvalidFilter \<and>
   category (resolve_with (JObj [(''total'', JNum 0), (''items'', JArr [])]))
       (JObj [(''slug'', JStr ''x'')]) \<noteq> Inl InvalidFilter \<and>
   category (resolve_with (JObj [(''total'', JNum 0), (''items'', JArr [])]))
       (JObj [(''slug'', JStr ''x'')]) = Inr JNull \<and>
   article (resolve_with (JObj [(''total'', JNum 0), (''items'', JArr [])]))
       (JObj [(''id'', JStr ''7'')]) = Inr JNull"
  using
    item_lookup_rejects_exactly [of "resolve_with (JObj [(''total'', JNum 0), (''items'', JArr [])])"
      "JObj []" JUndefined]
    item_lookup_rejects_exactly [of "resolve_with (JObj [(''total'', JNum 0), (''items'', JArr [])])"
      JUndefined JUndefined]
    item_lookup_rejects_exactly [of "resolve_with (JObj [(''total'', JNum 0), (''items'', JArr [])])"
      "JObj [(''slug'', JStr ''x'')]" "JObj [(''total'', JNum 0), (''items'', JArr [])]"]
    item_lookup_rejects_exactly [of "resolve_with (JObj [(''total'', JNum 0), (''items'', JArr [])])"
      "JObj [(''id'', JStr ''7'')]" "JObj [(''total'', JNum 0), (''items'', JArr [])]"]
  by (simp add: resolve_with_def)

text \<open>
  C10. The guard tests \<open>id\<close> and \<open>slug\<close> for truthiness, not presence: a filter whose
  \<open>id\<close> and \<open>slug\<close> are both falsy (empty strings, or one empty and the other missing) is
  rejected with the invalid-filter error, as \<open>{}\<close> is, whatever the collaborator would do.
\<close>

theorem falsy_id_slug_rejected:
  "\<not> truthy (pval flt ''id'') \<and> \<not> truthy (pval flt ''slug'') \<longrightarrow>
     article fetch flt = Inl InvalidFilter \<and> category fetch flt = Inl InvalidFilter \<and>
     article fetch flt = article fetch (JObj []) \<and>
     category fetch flt = category fetch (JObj [])"
  by (simp add: article_invalid category_invalid)

theorem falsy_id_slug_rejected_witness:
  "article (resolve_with (JObj [])) (JObj [(''id'', JStr []), (''slug'', JStr [])])
     = Inl InvalidFilter \<and>
   category (resolve_with (JObj [])) (JObj [(''id'', JStr []), (''slug'', JStr [])])
     = Inl InvalidFilter \<and>
   article (resolve_with (JObj [])) (JObj [(''id'', JStr [])]) = Inl InvalidFilter \<and>
   category (resolve_with (JObj [])) (JObj [(''slug'', JStr [])]) = Inl InvalidFilter \<and>
   article (resolve_with (JObj [])) (JObj [(''id'', JStr []), (''slug'', JStr [])])
     = article (resolve_with (JObj [])) (JObj [])"
  using falsy_id_slug_rejected [of "JObj [(''id'', JStr []), (''slug'', JStr [])]"
      "resolve_with (JObj [])"]
    falsy_id_slug_rejected [of "JObj [(''id'', JStr [])]" "resolve_with (JObj [])"]
    falsy_id_slug_rejected [of "JObj [(''slug'', JStr [])]" "resolve_with (JObj [])"]
  by (simp add: article_invalid)

text \<open>
  C6. The query of a single-item lookup with a valid filter: \<open>include: 1\<close>, \<open>limit: 1\<close>,
  and one filter key, \<open>fields.slug\<close> when the filter gives a slug and \<open>sys.id\<close>
  otherwise, so that a filter with both is looked up by slug and its id is not sent.
  \<open>getArticles\<close> and \<open>getCategories\<close> add the content type, and that query is the
  one handed to the collaborator; the result is the first normalized item, or \<open>null\<close>.
\<close>

theorem item_lookup_query:
  assumes "truthy flt" and "truthy (pval flt ''id'') \<or> truthy (pval flt ''slug'')"
    and "q = [(''include'', JNum 1), (''limit'', JNum 1),
              (if truthy (pval flt ''slug'') then (''fields.slug'', pval flt ''slug'')
               else (''sys.id'', pval flt ''id''))]"
  shows "article fetch flt =
           bindE (getCacheEntries fetch ARTICLE (q @ [(''content_type'', JStr ''article'')]))
             (\<lambda>c. bindE (toArticles c) (\<lambda>articles. Inr (first_or_null articles))) \<and>
         category fetch flt =
           bindE (getCacheEntries fetch CATEGORY (q @ [(''content_type'', JStr ''category'')]))
             (\<lambda>c. bindE (toCategories c) (\<lambda>collection. Inr (first_or_null collection))) \<and>
         map_of q ''include'' = Some (JNum 1) \<and> map_of q ''limit'' = Some (JNum 1) \<and>
         (truthy (pval flt ''slug'') \<longrightarrow>
            map_of q ''fields.slug'' = Some (pval flt ''slug'') \<and> map_of q ''sys.id'' = None) \<and>
         (\<not> truthy (pval flt ''slug'') \<longrightarrow>
            map_of q ''sys.id'' = Some (pval flt ''id'') \<and> map_of q ''fields.slug'' = None)"
proof -
  have bind_assoc: "\<And>m f g. bindE (bindE m f) g = bindE m (\<lambda>x. bindE (f x) g)"
    by (simp add: bindE_def split: sum.splits)
  have a: "article fetch flt =
           bindE (getCacheEntries fetch ARTICLE (q @ [(''content_type'', JStr ''article'')]))
             (\<lambda>c. bindE (toArticles c) (\<lambda>articles. Inr (first_or_null articles)))"
    unfolding article_valid [OF assms(1,2)] getArticles_eq item_query_content_type bind_assoc assms(3)
    by simp
  have c: "category fetch flt =
           bindE (getCacheEntries fetch CATEGORY (q @ [(''content_type'', JStr ''category'')]))
             (\<lambda>c. bindE (toCategories c) (\<lambda>collection. Inr (first_or_null collection)))"
    unfolding category_valid [OF assms(1,2)] getCategories_eq item_query_content_type bind_assoc assms(3)
    by simp
  have m: "map_of q ''include'' = Some (JNum 1) \<and> map_of q ''limit'' = Some (JNum 1) \<and>
         (truthy (pval flt ''slug'') \<longrightarrow>
            map_of q ''fields.slug'' = Some (pval flt ''slug'') \<and> map_of q ''sys.id'' = None) \<and>
         (\<not> truthy (pval flt ''slug'') \<longrightarrow>
            map_of q ''sys.id'' = Some (pval flt ''id'') \<and> map_of q ''fields.slug'' = None)"
    by (simp add: assms(3))
  from a c m show ?thesis by (intro conjI) simp_all
qed

theorem item_lookup_query_witness:
  "truthy (JObj [(''id'', JStr ''7''), (''slug'', JStr ''s'')]) \<and>
   article
     (expect_query ''article''
          [(''include'', JNum 1), (''limit'', JNum 1), (''fields.slug'', JStr ''s''),
           (''content_type'', JStr ''article'')]
          (JObj [(''items'', JArr [JObj [(''id'', JStr ''a''), (''fields'', JObj [])]])]))
     (JObj [(''id'', JStr ''7''), (''slug'', JStr ''s'')])
   = Inr (JObj [(''id'', JStr ''a''), (''createdAt'', JUndefined), (''updatedAt'', JUndefined),
                (''title'', JUndefined), (''slug'', JUndefined), (''summary'', JUndefined),
                (''countViews'', JNum 1)])"
  using item_lookup_query [of "JObj [(''id'', JStr ''7''), (''slug'', JStr ''s'')]"
     "[(''include'', JNum 1), (''limit'', JNum 1), (''fields.slug'', JStr ''s'')]"
     "expect_query ''article''
          [(''include'', JNum 1), (''limit'', JNum 1), (''fields.slug'', JStr ''s''),
           (''content_type'', JStr ''article'')]
          (JObj [(''items'', JArr [JObj [(''id'', JStr ''a''), (''fields'', JObj [])]])])"]
  by (simp add: getCacheEntries_def expect_query_def toArticles_items toArticle_def first_or_null_def
        js_or_def js_and_def)

section \<open>The facade: listings\<close>

text \<open>
  C5. The query of \<open>articles(filter)\<close> for a filter that is there: the filter's limit;
  the fixed projection \<open>sys.id\<close>, \<open>sys.createdAt\<close>, \<open>sys.updatedAt\<close>, \<open>fields.title\<close>,
  \<open>fields.slug\<close>, \<open>fields.summary\<close>, \<open>fields.image\<close>, \<open>fields.category\<close>, which
  leaves \<open>fields.text\<close> out; the order key, where the backend reads a leading \<open>-\<close> as
  descending: \<open>createdAt\<close> gives \<open>sys.createdAt\<close>, \<open>countViews\<close> gives
  \<open>fields.countViews\<close>, \<open>-countViews\<close> gives \<open>-fields.countViews\<close>, and every other
  value (also \<open>-createdAt\<close>, none, or an unknown one) gives \<open>-sys.createdAt\<close>; and an
  equality filter \<open>fields.category.sys.id\<close> and/or \<open>fields.category.fields.slug\<close> for a
  \<open>categoryId\<close> and/or \<open>categorySlug\<close> that the filter gives (a truthy one).
\<close>

theorem articles_query_built:
  assumes "truthy flt"
  shows "\<exists>okey.
     articles fetch flt =
       bindE (getCacheEntries fetch ARTICLE
         ([(''limit'', pval flt ''limit''),
           (''select'', JStr ''sys.id,sys.createdAt,sys.updatedAt,fields.title,fields.slug,fields.summary,fields.image,fields.category''),
           (''order'', JStr okey)]
          @ (if truthy (pval flt ''categoryId'')
             then [(''fields.category.sys.id'', pval flt ''categoryId'')] else [])
          @ (if truthy (pval flt ''categorySlug'')
             then [(''fields.category.fields.slug'', pval flt ''categorySlug'')] else [])
          @ [(''content_type'', JStr ''article'')])) toArticles \<and>
     (pval flt ''order'' = JStr ''createdAt'' \<longrightarrow> okey = ''sys.createdAt'') \<and>
     (pval flt ''order'' = JStr ''countViews'' \<longrightarrow> okey = ''fields.countViews'') \<and>
     (pval flt ''order'' = JStr ''-countViews'' \<longrightarrow> okey = ''-fields.countViews'') \<and>
     (pval flt ''order'' \<noteq> JStr ''createdAt'' \<and> pval flt ''order'' \<noteq> JStr ''countViews'' \<and>
      pval flt ''order'' \<noteq> JStr ''-countViews'' \<longrightarrow> okey = ''-sys.createdAt'') \<and>
     ''sys.id,sys.createdAt,sys.updatedAt,fields.title,fields.slug,fields.summary,fields.image,fields.category''
       = join_commas [''sys.id'', ''sys.createdAt'', ''sys.updatedAt'', ''fields.title'',
                      ''fields.slug'', ''fields.summary'', ''fields.image'', ''fields.category''] \<and>
     ''fields.text'' \<notin> set [''sys.id'', ''sys.createdAt'', ''sys.updatedAt'', ''fields.title'',
                      ''fields.slug'', ''fields.summary'', ''fields.image'', ''fields.category'']"
proof -
  have sel: "list_select = ''sys.id,sys.createdAt,sys.updatedAt,fields.title,fields.slug,fields.summary,fields.image,fields.category''"
    by (simp only: list_select_def)
  have j: "''sys.id,sys.createdAt,sys.updatedAt,fields.title,fields.slug,fields.summary,fields.image,fields.category''
       = join_commas [''sys.id'', ''sys.createdAt'', ''sys.updatedAt'', ''fields.title'',
                      ''fields.slug'', ''fields.summary'', ''fields.image'', ''fields.category'']"
    by (simp only: join_commas.simps append.simps)
  have nt: "''fields.text'' \<notin> set [''sys.id'', ''sys.createdAt'', ''sys.updatedAt'', ''fields.title'',
                      ''fields.slug'', ''fields.summary'', ''fields.image'', ''fields.category'']"
    by simp
  have ok1: "pval flt ''order'' = JStr ''createdAt'' \<longrightarrow> order_key (pval flt ''order'') = ''sys.createdAt''"
    by (simp add: order_key_def)
  have ok2: "pval flt ''order'' = JStr ''countViews'' \<longrightarrow> order_key (pval flt ''order'') = ''fields.countViews''"
    by (simp add: order_key_def)
  have ok3: "pval flt ''order'' = JStr ''-countViews'' \<longrightarrow> order_key (pval flt ''order'') = ''-fields.countViews''"
    by (simp add: order_key_def)
  have ok4: "pval flt ''order'' \<noteq> JStr ''createdAt'' \<and> pval flt ''order'' \<noteq> JStr ''countViews'' \<and>
      pval flt ''order'' \<noteq> JStr ''-countViews'' \<longrightarrow> order_key (pval flt ''order'') = ''-sys.createdAt''"
    by (simp add: order_key_def)
  note main = articles_eq [OF assms, of fetch, unfolded sel]
  show ?thesis
    by (rule exI [of _ "order_key (pval flt ''order'')"]) (intro conjI main ok1 ok2 ok3 ok4 j nt)
qed

theorem articles_query_built_witness:
  "truthy (JObj [(''limit'', JNum 10), (''order'', JStr ''countViews'')]) \<and>
   articles
     (expect_query ''article''
          [(''limit'', JNum 10),
           (''select'', JStr ''sys.id,sys.createdAt,sys.updatedAt,fields.title,fields.slug,fields.summary,fields.image,fields.category''),
           (''order'', JStr ''fields.countViews''),
           (''content_type'', JStr ''article'')]
          (JObj [(''total'', JNum 3)]))
     (JObj [(''limit'', JNum 10), (''order'', JStr ''countViews'')])
   = Inr \<lparr>total = JNum 3, items = []\<rparr>"
  using articles_query_built [of "JObj [(''limit'', JNum 10), (''order'', JStr ''countViews'')]"
     "expect_query ''article''
          [(''limit'', JNum 10),
           (''select'', JStr ''sys.id,sys.createdAt,sys.updatedAt,fields.title,fields.slug,fields.summary,fields.image,fields.category''),
           (''order'', JStr ''fields.countViews''),
           (''content_type'', JStr ''article'')]
          (JObj [(''total'', JNum 3)])"]
  by (auto simp: getCacheEntries_def expect_query_def toArticles_no_items js_or_def)

text \<open>
  C7. \<open>mainCategories(limit)\<close> for an integer limit from 0 to \<open>2^53 - 10\<close>, where the
  double addition \<open>limit + 10\<close> is exact: it asks the collaborator for \<open>limit + 10\<close>
  categories ordered by \<open>fields.slug\<close>, and it returns exactly when that resolves,
  normalization returns and no item is \<open>null\<close>; the result is then the first \<open>limit\<close> of
  the normalized categories whose \<open>parent\<close> is there and has a non-empty \<open>name\<close>, in
  order: at most \<open>limit\<close> of them, and every one with a named parent. For limit 5 the
  query carries \<open>limit: 15\<close>.
\<close>

theorem mainCategories_limit:
  assumes "0 \<le> limit" and "limit \<le> 9007199254740982"
  shows "(mainCategories fetch limit = Inr ys) =
     (\<exists>c r. fetch ''category''
               [(''order'', JStr ''fields.slug''), (''limit'', JNum (limit + 10)),
                (''content_type'', JStr ''category'')] = Inr c \<and>
            toCategories c = Inr r \<and>
            (\<forall>x\<in>set (items r). x \<noteq> JUndefined \<and> x \<noteq> JNull) \<and>
            ys = take (nat limit)
                   (filter (\<lambda>item. truthy (pval item ''parent'') \<and>
                                   truthy (pval (pval item ''parent'') ''name'')) (items r))) \<and>
    (mainCategories fetch limit = Inr ys \<longrightarrow>
       int (length ys) \<le> limit \<and>
       (\<forall>y\<in>set ys. truthy (pval y ''parent'') \<and> truthy (pval (pval y ''parent'') ''name'')))"
proof -
  have sl: "\<And>kept. slice0 kept limit = take (nat limit) (kept :: jsval list)"
    using assms(1) by (simp add: slice0_def)
  have add: "js_add limit 10 = limit + 10"
    using assms by (intro js_add_exact) simp
  have iff: "(mainCategories fetch limit = Inr ys) =
     (\<exists>c r. fetch ''category''
               [(''order'', JStr ''fields.slug''), (''limit'', JNum (limit + 10)),
                (''content_type'', JStr ''category'')] = Inr c \<and>
            toCategories c = Inr r \<and>
            (\<forall>x\<in>set (items r). x \<noteq> JUndefined \<and> x \<noteq> JNull) \<and>
            ys = take (nat limit)
                   (filter (\<lambda>item. truthy (pval item ''parent'') \<and>
                                   truthy (pval (pval item ''parent'') ''name'')) (items r)))"
    unfolding mainCategories_eq sl add
    by (simp only: bindE_Inr_iff getCacheEntries_Inr_iff filterE_named_iff
          content_type_name.simps sum.inject) blast
  have bound: "mainCategories fetch limit = Inr ys \<longrightarrow>
       int (length ys) \<le> limit \<and>
       (\<forall>y\<in>set ys. truthy (pval y ''parent'') \<and> truthy (pval (pval y ''parent'') ''name''))"
  proof
    assume h: "mainCategories fetch limit = Inr ys"
    from iffD1 [OF iff h] show "int (length ys) \<le> limit \<and>
       (\<forall>y\<in>set ys. truthy (pval y ''parent'') \<and> truthy (pval (pval y ''parent'') ''name''))"
    proof (elim exE conjE)
      fix c r
      assume ys: "ys = take (nat limit)
                   (filter (\<lambda>item. truthy (pval item ''parent'') \<and>
                                   truthy (pval (pval item ''parent'') ''name'')) (items r))"
      have "length ys \<le> nat limit" by (simp add: ys)
      with assms(1) have "int (length ys) \<le> limit" by linarith
      moreover have "\<forall>y\<in>set ys. truthy (pval y ''parent'') \<and> truthy (pval (pval y ''parent'') ''name'')"
        unfolding ys by (auto dest: in_set_takeD)
      ultimately show ?thesis by simp
    qed
  qed
  show ?thesis by (rule conjI [OF iff bound])
qed

theorem mainCategories_limit_witness:
  "(0::int) \<le> 5 \<and> (5::int) \<le> 9007199254740982 \<and>
   mainCategories
     (expect_query ''category''
          [(''order'', JStr ''fields.slug''), (''limit'', JNum 15),
           (''content_type'', JStr ''category'')]
          (JObj [(''items'', JArr [raw_grandparent, raw_parent, raw_parent, raw_parent,
                                          raw_parent, raw_parent, raw_parent])])) 5
   = Inr (replicate 5
       (JObj [(''id'', JStr ''p''), (''name'', JStr ''P''), (''slug'', JUndefined),
              (''parent'', JObj [(''id'', JStr ''g''), (''name'', JStr ''G''),
                                 (''slug'', JStr ''g'')])]))"
  using mainCategories_limit [of 5
     "expect_query ''category''
          [(''order'', JStr ''fields.slug''), (''limit'', JNum 15),
           (''content_type'', JStr ''category'')]
          (JObj [(''items'', JArr [raw_grandparent, raw_parent, raw_parent, raw_parent,
                                          raw_parent, raw_parent, raw_parent])])"
     "replicate 5
       (JObj [(''id'', JStr ''p''), (''name'', JStr ''P''), (''slug'', JUndefined),
              (''parent'', JObj [(''id'', JStr ''g''), (''name'', JStr ''G''),
                                 (''slug'', JStr ''g'')])])"]
  by (simp add: expect_query_def toCategories_items toCategory_truthy numeral_eq_Suc)

text \<open>
  C7, as stated for every limit, fails where \<open>limit + 10\<close> is not a double. For the limit
  \<open>9007199254740991\<close> (\<open>2^53 - 1\<close>) the exact sum \<open>9007199254741001\<close> lies halfway
  between two doubles and rounds to \<open>9007199254741000\<close>: that is the number of categories
  requested, and a collaborator waiting for \<open>limit + 10\<close> is never asked.
\<close>

theorem mainCategories_rounds_request:
  "mainCategories
     (expect_query ''category''
          [(''order'', JStr ''fields.slug''), (''limit'', JNum 9007199254741000),
           (''content_type'', JStr ''category'')]
          (JObj [(''items'', JArr [])])) 9007199254740991
   = Inr [] \<and>
   mainCategories
     (expect_query ''category''
          [(''order'', JStr ''fields.slug''), (''limit'', JNum (9007199254740991 + 10)),
           (''content_type'', JStr ''category'')]
          (JObj [(''items'', JArr [])])) 9007199254740991
   = Inl (Upstream ''another query'') \<and>
   (9007199254741000 :: int) \<noteq> 9007199254740991 + 10"
  by (simp add: mainCategories_eq js_add_max_safe getCacheEntries_def expect_query_def
        toCategories_items slice0_def)

text \<open>
  Below zero the bound on the result fails as well: \<open>slice(0, limit)\<close> with a negative
  \<open>limit\<close> drops that many items from the end, so limit \<open>-1\<close> with two qualifying
  categories returns one.
\<close>

lemma mainCategories_negative_limit:
  "mainCategories
     (resolve_with (JObj [(''items'', JArr [raw_parent, raw_parent])])) (- 1)
   = Inr [JObj [(''id'', JStr ''p''), (''name'', JStr ''P''), (''slug'', JUndefined),
                (''parent'', JObj [(''id'', JStr ''g''), (''name'', JStr ''G''),
                                   (''slug'', JStr ''g'')])]]"
  by (simp add: mainCategories_eq getCacheEntries_def resolve_with_def toCategories_items
        toCategory_truthy has_named_parent_def slice0_def)

end
